theory Spec2Isabelle
  imports Main
begin

section \<open>JavaScript values\<close>

text \<open>
  Both components are typed \<open>any\<close> throughout: what they store and render is whatever
  \<open>res.json()\<close> produced. A value is therefore a JSON value, or \<open>undefined\<close> (a missing
  property), or \<open>NaN\<close> (the result of arithmetic on a non-number). Numbers are
  mathematical integers: fractions, infinities and rounding are not represented.
  Strings are byte strings (text outside ASCII is written in UTF-8). An object is the
  list of its own properties.
\<close>

datatype jsval =
    JUndefined
  | JNull
  | JBool bool
  | JNum int
  | JNaN
  | JStr string
  | JArr "jsval list"
  | JObj "(string \<times> jsval) list"

text \<open>The only exception the two components can raise is a \<open>TypeError\<close>: a property read
  on \<open>null\<close> or \<open>undefined\<close>, or a call of something that is not a function.\<close>

datatype error = TypeError

definition nullish :: "jsval \<Rightarrow> bool" where
  "nullish v = (v = JUndefined \<or> v = JNull)"

text \<open>\<open>v.k\<close> on a value that is neither \<open>null\<close> nor \<open>undefined\<close>: the property of an
  object, \<open>undefined\<close> when it is missing and on every other value (none of the names
  the components read this way is built in; \<open>length\<close> is read by \<open>js_length\<close>).\<close>

fun js_get :: "jsval \<Rightarrow> string \<Rightarrow> jsval" where
  "js_get (JObj fs) k = (case map_of fs k of Some v \<Rightarrow> v | None \<Rightarrow> JUndefined)"
| "js_get v k = JUndefined"

text \<open>\<open>v.k\<close> in general: a \<open>TypeError\<close> on \<open>null\<close> and \<open>undefined\<close>.\<close>

definition get_prop :: "jsval \<Rightarrow> string \<Rightarrow> error + jsval" where
  "get_prop v k = (if nullish v then Inl TypeError else Inr (js_get v k))"

definition bindE :: "error + 'a \<Rightarrow> ('a \<Rightarrow> error + 'b) \<Rightarrow> error + 'b" where
  "bindE m f = (case m of Inl e \<Rightarrow> Inl e | Inr x \<Rightarrow> f x)"

text \<open>\<open>v.length\<close> (further down, \<open>v[i]\<close>). A string counts its bytes here and its UTF-16
  code units in JavaScript: the two agree on ASCII.\<close>

fun js_length :: "jsval \<Rightarrow> error + jsval" where
  "js_length JUndefined = Inl TypeError"
| "js_length JNull = Inl TypeError"
| "js_length (JArr xs) = Inr (JNum (int (length xs)))"
| "js_length (JStr s) = Inr (JNum (int (length s)))"
| "js_length v = Inr (js_get v ''length'')"

text \<open>The truthiness test of \<open>if (v)\<close>, \<open>v && e\<close> and \<open>v ? a : b\<close>.\<close>

fun truthy :: "jsval \<Rightarrow> bool" where
  "truthy JUndefined = False"
| "truthy JNull = False"
| "truthy (JBool b) = b"
| "truthy (JNum n) = (n \<noteq> 0)"
| "truthy JNaN = False"
| "truthy (JStr s) = (s \<noteq> [])"
| "truthy (JArr xs) = True"
| "truthy (JObj fs) = True"

subsection \<open>Conversion to string\<close>

fun digits :: "nat \<Rightarrow> string" where
  "digits n = (if n < 10 then [''0123456789'' ! n]
     else digits (n div 10) @ [''0123456789'' ! (n mod 10)])"

fun join_comma :: "string list \<Rightarrow> string" where
  "join_comma [] = []"
| "join_comma [s] = s"
| "join_comma (s # t # ss) = s @ '','' @ join_comma (t # ss)"

text \<open>\<open>ToString\<close>, as string concatenation and template literals apply it: an array is its
  elements joined by commas, \<open>null\<close> and \<open>undefined\<close> elements left empty; a plain object
  is \<open>[object Object]\<close>.\<close>

fun js_to_string :: "jsval \<Rightarrow> string" where
  "js_to_string JUndefined = ''undefined''"
| "js_to_string JNull = ''null''"
| "js_to_string (JBool b) = (if b then ''true'' else ''false'')"
| "js_to_string (JNum n) = (if n < 0 then CHR ''-'' # digits (nat (- n)) else digits (nat n))"
| "js_to_string JNaN = ''NaN''"
| "js_to_string (JStr s) = s"
| "js_to_string (JArr xs) =
     join_comma (map (\<lambda>x. if x = JUndefined \<or> x = JNull then [] else js_to_string x) xs)"
| "js_to_string (JObj fs) = ''[object Object]''"

text \<open>\<open>ToPrimitive\<close>: arrays and objects become their strings.\<close>

fun to_primitive :: "jsval \<Rightarrow> jsval" where
  "to_primitive (JArr xs) = JStr (js_to_string (JArr xs))"
| "to_primitive (JObj fs) = JStr (js_to_string (JObj fs))"
| "to_primitive v = v"

text \<open>\<open>v[i]\<close> for a number \<open>i\<close>.\<close>

fun js_index :: "jsval \<Rightarrow> nat \<Rightarrow> error + jsval" where
  "js_index JUndefined i = Inl TypeError"
| "js_index JNull i = Inl TypeError"
| "js_index (JArr xs) i = Inr (if i < length xs then xs ! i else JUndefined)"
| "js_index (JStr s) i = Inr (if i < length s then JStr [s ! i] else JUndefined)"
| "js_index v i = Inr (js_get v (digits i))"

subsection \<open>Conversion to number\<close>

definition is_ws :: "char \<Rightarrow> bool" where
  "is_ws c = (c \<in> set [CHR 0x09, CHR 0x0A, CHR 0x0B, CHR 0x0C, CHR 0x0D, CHR '' ''])"

definition is_digit :: "char \<Rightarrow> bool" where
  "is_digit c = (c \<in> set ''0123456789'')"

definition digit_val :: "char \<Rightarrow> nat" where
  "digit_val c = of_char c - 48"

definition trim :: "string \<Rightarrow> string" where
  "trim s = rev (dropWhile is_ws (rev (dropWhile is_ws s)))"

definition digits_val :: "string \<Rightarrow> int option" where
  "digits_val r = (if r \<noteq> [] \<and> list_all is_digit r
     then Some (int (foldl (\<lambda>a c. 10 * a + digit_val c) 0 r)) else None)"

text \<open>\<open>ToNumber\<close> on a string, for the notations that denote an integer in plain decimal
  digits: the empty or blank string is 0, an optionally signed run of digits is its
  value, and every other string is \<open>NaN\<close> (\<open>None\<close>). Strings in another numeric notation
  (a fraction, an exponent, a hexadecimal literal, \<open>Infinity\<close>) are read as \<open>NaN\<close> here.\<close>

definition string_to_number :: "string \<Rightarrow> int option" where
  "string_to_number s =
     (case trim s of
        [] \<Rightarrow> Some 0
      | c # r \<Rightarrow>
          if c = CHR ''-'' then map_option uminus (digits_val r)
          else if c = CHR ''+'' then digits_val r
          else digits_val (c # r))"

text \<open>\<open>ToNumber\<close>; \<open>None\<close> is \<open>NaN\<close>.\<close>

fun prim_to_number :: "jsval \<Rightarrow> int option" where
  "prim_to_number JUndefined = None"
| "prim_to_number JNull = Some 0"
| "prim_to_number (JBool b) = Some (if b then 1 else 0)"
| "prim_to_number (JNum n) = Some n"
| "prim_to_number JNaN = None"
| "prim_to_number (JStr s) = string_to_number s"
| "prim_to_number v = None"

definition to_number :: "jsval \<Rightarrow> int option" where
  "to_number v = prim_to_number (to_primitive v)"

subsection \<open>Operators\<close>

text \<open>\<open>a * b\<close>.\<close>

definition js_mul :: "jsval \<Rightarrow> jsval \<Rightarrow> jsval" where
  "js_mul a b =
     (case (to_number a, to_number b) of
        (Some x, Some y) \<Rightarrow> JNum (x * y)
      | _ \<Rightarrow> JNaN)"

text \<open>\<open>a + b\<close>: concatenation as soon as one operand is a string once made primitive,
  addition of numbers otherwise.\<close>

definition is_str :: "jsval \<Rightarrow> bool" where
  "is_str v = (case v of JStr s \<Rightarrow> True | _ \<Rightarrow> False)"

definition js_add :: "jsval \<Rightarrow> jsval \<Rightarrow> jsval" where
  "js_add a b =
     (let pa = to_primitive a; pb = to_primitive b in
      if is_str pa \<or> is_str pb then JStr (js_to_string pa @ js_to_string pb)
      else case (prim_to_number pa, prim_to_number pb) of
             (Some x, Some y) \<Rightarrow> JNum (x + y)
           | _ \<Rightarrow> JNaN)"

text \<open>\<open>a < b\<close> for a number \<open>a\<close> (the loop counter).\<close>

definition js_lt :: "int \<Rightarrow> jsval \<Rightarrow> bool" where
  "js_lt i v = (case to_number v of Some n \<Rightarrow> i < n | None \<Rightarrow> False)"

text \<open>Strict equality \<open>a === b\<close>: equal primitives of the same type, \<open>NaN\<close> equal to
  nothing. Two objects are strictly equal in JavaScript when they are the same object;
  the values here carry no identity, and an array or object is taken to equal nothing.
  (The one use is \<open>item.id !== itemId\<close>, where \<open>itemId\<close> is declared a \<open>string\<close>.)\<close>

definition is_object :: "jsval \<Rightarrow> bool" where
  "is_object v = (case v of JArr xs \<Rightarrow> True | JObj fs \<Rightarrow> True | _ \<Rightarrow> False)"

definition js_strict_eq :: "jsval \<Rightarrow> jsval \<Rightarrow> bool" where
  "js_strict_eq a b = (a = b \<and> a \<noteq> JNaN \<and> \<not> is_object a)"

text \<open>Loose equality \<open>a == b\<close>: \<open>null\<close> and \<open>undefined\<close> equal each other and nothing else;
  two strings are compared as strings; otherwise both sides are made primitive and
  compared as numbers. Two objects are never the same reference here: the values
  compared come from different places (a state cell and a parsed response).\<close>

definition js_loose_eq :: "jsval \<Rightarrow> jsval \<Rightarrow> bool" where
  "js_loose_eq a b =
     (if nullish a \<or> nullish b then nullish a \<and> nullish b
      else if is_object a \<and> is_object b then False
      else let pa = to_primitive a; pb = to_primitive b in
        if is_str pa \<and> is_str pb then pa = pb
        else case (prim_to_number pa, prim_to_number pb) of
               (Some x, Some y) \<Rightarrow> x = y
             | _ \<Rightarrow> False)"

section \<open>The rendered tree\<close>

text \<open>What a component function returns: elements with their props and children. A prop
  is a value or an event handler; a child is an element, a value in braces, an array
  of children or a fragment. The literal texts of the source that are not ASCII are UTF-8 bytes.\<close>

datatype 'h attr = Val jsval | Handler 'h

datatype 'h vnode =
    Elem string "(string \<times> 'h attr) list" "'h vnode list"
  | Expr jsval
  | ArrayOf "'h vnode list"
  | Fragment "'h vnode list"

definition Text :: "string \<Rightarrow> 'h vnode" where
  "Text s = Expr (JStr s)"

text \<open>The values that reach the DOM unescaped: every \<open>__html\<close> of a
  \<open>dangerouslySetInnerHTML\<close> prop in the tree, in document order.\<close>

fun attr_html :: "string \<times> 'h attr \<Rightarrow> jsval list" where
  "attr_html (k, a) =
     (if k = ''dangerouslySetInnerHTML'' then
        (case a of
           Val (JObj fs) \<Rightarrow> (case map_of fs ''__html'' of Some v \<Rightarrow> [v] | None \<Rightarrow> [])
         | _ \<Rightarrow> [])
      else [])"

fun raw_html :: "'h vnode \<Rightarrow> jsval list" where
  "raw_html (Elem tag attrs children) = concat (map attr_html attrs) @ concat (map raw_html children)"
| "raw_html (Expr v) = []"
| "raw_html (ArrayOf children) = concat (map raw_html children)"
| "raw_html (Fragment children) = concat (map raw_html children)"

text \<open>The event handlers of a tree.\<close>

fun attr_handler :: "string \<times> 'h attr \<Rightarrow> 'h list" where
  "attr_handler (k, Handler h) = [h]"
| "attr_handler (k, Val v) = []"

fun handlers_of :: "'h vnode \<Rightarrow> 'h list" where
  "handlers_of (Elem tag attrs children) =
     concat (map attr_handler attrs) @ concat (map handlers_of children)"
| "handlers_of (Expr v) = []"
| "handlers_of (ArrayOf children) = concat (map handlers_of children)"
| "handlers_of (Fragment children) = concat (map handlers_of children)"

text \<open>\<open>xs.map(f)\<close> where \<open>f\<close> can throw: the first exception ends the map.\<close>

fun mapE :: "('a \<Rightarrow> error + 'b) \<Rightarrow> 'a list \<Rightarrow> error + 'b list" where
  "mapE f [] = Inr []"
| "mapE f (x # xs) =
     (case f x of
        Inl e \<Rightarrow> Inl e
      | Inr y \<Rightarrow> (case mapE f xs of Inl e \<Rightarrow> Inl e | Inr ys \<Rightarrow> Inr (y # ys)))"

text \<open>\<open>v.map(f)\<close>: only an array has the method.\<close>

fun js_map :: "(jsval \<Rightarrow> error + 'b) \<Rightarrow> jsval \<Rightarrow> error + 'b list" where
  "js_map f (JArr xs) = mapE f xs"
| "js_map f v = Inl TypeError"

section \<open>The React runtime, as far as the components use it\<close>

datatype http_method = GET | DELETE

type_synonym request = "http_method \<times> string"

datatype phase = NotMounted | Mounted | Unmounted

text \<open>A cleanup is what an effect may return for React to call before the effect runs
  again and at unmount. The only resource of these components that a cleanup could
  release is an interval.\<close>

datatype cleanup = ClearInterval nat

text \<open>
  \<open>requests\<close>: every call of \<open>fetch\<close>, in order, with the handler chained on its promise;
  \<open>settled\<close>: the requests whose promise has been fulfilled or rejected;
  \<open>timers\<close>: the intervals that are active, with their id, callback and period;
  \<open>cleanups\<close>: the cleanups React holds, with the effect that returned each;
  \<open>alerts\<close>, \<open>console\<close>: what \<open>alert\<close> and \<open>console.log\<close> were called with.
\<close>

record ('k, 'c) runtime =
  phase :: phase
  requests :: "(request \<times> 'k) list"
  settled :: "nat list"
  timers :: "(nat \<times> 'c \<times> nat) list"
  next_timer :: nat
  cleanups :: "(nat \<times> cleanup) list"
  alerts :: "string list"
  console :: "jsval list list"

text \<open>A component instance: its hook state \<open>st\<close>; the state of its last committed render
  \<open>view\<close>, which is what the closures of that render have captured; the event handlers
  that render put in the DOM, \<open>dom\<close>; and the runtime.\<close>

record ('s, 'k, 'c, 'h) world =
  st :: 's
  view :: 's
  dom :: "'h list"
  rt :: "('k, 'c) runtime"

text \<open>
  What can happen to a component: React renders it for the first time (\<open>Mount\<close>) or
  again (\<open>Rerender\<close>: its own state changed, or its parent rendered) or removes it
  (\<open>Unmount\<close>); interval \<open>i\<close> fires (\<open>Tick i\<close>); the user triggers a handler that is in
  the DOM (\<open>Fire h arg\<close>, where \<open>arg\<close> is what the handler reads from outside: the text
  of an input, the number \<open>Math.random()\<close> returns); request \<open>i\<close> is answered with a body
  that parses to \<open>data\<close> (\<open>Resolve i data\<close>) or fails, in the network or in \<open>res.json()\<close>
  (\<open>Reject i\<close>).
\<close>

datatype 'h event =
    Mount
  | Rerender
  | Unmount
  | Tick nat
  | Fire 'h jsval
  | Resolve nat jsval
  | Reject nat

definition init_runtime :: "('k, 'c) runtime" where
  "init_runtime = \<lparr>phase = NotMounted, requests = [], settled = [], timers = [],
     next_timer = 0, cleanups = [], alerts = [], console = []\<rparr>"

text \<open>A state setter: React drops the update of a component that is not mounted.\<close>

definition set_state ::
  "('s \<Rightarrow> 's) \<Rightarrow> ('s, 'k, 'c, 'h, 'z) world_scheme \<Rightarrow> ('s, 'k, 'c, 'h, 'z) world_scheme" where
  "set_state f w = (if phase (rt w) = Mounted then w\<lparr>st := f (st w)\<rparr> else w)"

definition fetch ::
  "request \<Rightarrow> 'k \<Rightarrow> ('s, 'k, 'c, 'h, 'z) world_scheme \<Rightarrow> ('s, 'k, 'c, 'h, 'z) world_scheme" where
  "fetch r k w = w\<lparr>rt := (rt w)\<lparr>requests := requests (rt w) @ [(r, k)]\<rparr>\<rparr>"

definition setInterval ::
  "'c \<Rightarrow> nat \<Rightarrow> ('s, 'k, 'c, 'h, 'z) world_scheme \<Rightarrow> ('s, 'k, 'c, 'h, 'z) world_scheme" where
  "setInterval cb ms w =
     w\<lparr>rt := (rt w)\<lparr>timers := timers (rt w) @ [(next_timer (rt w), cb, ms)],
                     next_timer := Suc (next_timer (rt w))\<rparr>\<rparr>"

definition alert ::
  "string \<Rightarrow> ('s, 'k, 'c, 'h, 'z) world_scheme \<Rightarrow> ('s, 'k, 'c, 'h, 'z) world_scheme" where
  "alert msg w = w\<lparr>rt := (rt w)\<lparr>alerts := alerts (rt w) @ [msg]\<rparr>\<rparr>"

definition console_log ::
  "jsval list \<Rightarrow> ('s, 'k, 'c, 'h, 'z) world_scheme \<Rightarrow> ('s, 'k, 'c, 'h, 'z) world_scheme" where
  "console_log args w = w\<lparr>rt := (rt w)\<lparr>console := console (rt w) @ [args]\<rparr>\<rparr>"

fun run_cleanup :: "cleanup \<Rightarrow> ('k, 'c) runtime \<Rightarrow> ('k, 'c) runtime" where
  "run_cleanup (ClearInterval i) r = r\<lparr>timers := filter (\<lambda>t. fst t \<noteq> i) (timers r)\<rparr>"

text \<open>React calls and forgets the cleanups of the effects that satisfy \<open>which\<close>.\<close>

definition destroy :: "(nat \<Rightarrow> bool) \<Rightarrow> ('k, 'c) runtime \<Rightarrow> ('k, 'c) runtime" where
  "destroy which r =
     (fold (\<lambda>c. run_cleanup (snd c)) (filter (\<lambda>c. which (fst c)) (cleanups r)) r)
       \<lparr>cleanups := filter (\<lambda>c. \<not> which (fst c)) (cleanups r)\<rparr>"

text \<open>\<open>useEffect(body)\<close>, when React runs the effect in slot \<open>slot\<close>: the cleanup of its
  previous run is called, the body runs, and what it returns is kept as the new cleanup
  (\<open>None\<close> when the body returns nothing).\<close>

definition run_effect ::
  "nat \<Rightarrow>
   (('s, 'k, 'c, 'h, 'z) world_scheme \<Rightarrow> ('s, 'k, 'c, 'h, 'z) world_scheme \<times> cleanup option) \<Rightarrow>
   ('s, 'k, 'c, 'h, 'z) world_scheme \<Rightarrow> ('s, 'k, 'c, 'h, 'z) world_scheme" where
  "run_effect slot body w =
     (let w1 = w\<lparr>rt := destroy (\<lambda>k. k = slot) (rt w)\<rparr>;
          (w2, c) = body w1
      in w2\<lparr>rt := (rt w2)\<lparr>cleanups := cleanups (rt w2) @
            (case c of None \<Rightarrow> [] | Some f \<Rightarrow> [(slot, f)])\<rparr>\<rparr>)"

text \<open>Whether React runs an effect after a commit: always after the first one; after a
  later one when the effect has no dependency array (\<open>None\<close>) or when the array differs
  from that of the previous render.\<close>

definition effect_due :: "bool \<Rightarrow> jsval list option \<Rightarrow> jsval list option \<Rightarrow> bool" where
  "effect_due first deps prev_deps =
     (first \<or> (case deps of None \<Rightarrow> True | Some ds \<Rightarrow> prev_deps \<noteq> Some ds))"

text \<open>The component leaves the page: its DOM goes, React calls every cleanup it holds.\<close>

definition unmount ::
  "('s, 'k, 'c, 'h, 'z) world_scheme \<Rightarrow> ('s, 'k, 'c, 'h, 'z) world_scheme" where
  "unmount w = w\<lparr>dom := [], rt := (destroy (\<lambda>k. True) (rt w))\<lparr>phase := Unmounted\<rparr>\<rparr>"

text \<open>A promise settles once: request \<open>i\<close> can be fulfilled or rejected when it has been
  issued and has not settled yet.\<close>

definition pending :: "('s, 'k, 'c, 'h, 'z) world_scheme \<Rightarrow> nat \<Rightarrow> bool" where
  "pending w i = (i < length (requests (rt w)) \<and> i \<notin> set (settled (rt w)))"

definition settle ::
  "nat \<Rightarrow> ('s, 'k, 'c, 'h, 'z) world_scheme \<Rightarrow> ('s, 'k, 'c, 'h, 'z) world_scheme" where
  "settle i w = w\<lparr>rt := (rt w)\<lparr>settled := i # settled (rt w)\<rparr>\<rparr>"

section \<open>OrderList\<close>

subsection \<open>State\<close>

text \<open>The six \<open>useState\<close> cells of \<open>OrderList\<close>.\<close>

record ol_state =
  ol_orders :: jsval
  ol_total :: jsval
  ol_loading :: bool
  ol_error :: jsval
  ol_selectedId :: jsval
  ol_trigger :: int

definition ol_init_state :: ol_state where
  "ol_init_state = \<lparr>ol_orders = JArr [], ol_total = JNum 0, ol_loading = False,
     ol_error = JNull, ol_selectedId = JNull, ol_trigger = 0\<rparr>"

text \<open>The handlers the component chains on a \<open>fetch\<close>: the two \<open>then\<close>s of the first
  effect (\<open>InitialFetchThen\<close>), \<open>.then((d) => setOrders(d))\<close> of the interval and of the
  search box (\<open>SetOrdersThen\<close>), and none at all in \<open>handleDelete\<close>.\<close>

datatype ol_then = InitialFetchThen | SetOrdersThen | NoThen

text \<open>The callback of the one \<open>setInterval\<close>.\<close>

datatype ol_callback = PollOrders

text \<open>The two closures its tree holds: \<open>() => handleDelete(order.id)\<close> with the order it
  has captured, and the \<open>onChange\<close> of the search box.\<close>

datatype ol_handler = OnClickOrder jsval | OnChangeSearch

type_synonym ol_world = "(ol_state, ol_then, ol_callback, ol_handler) world"

definition ol_init :: ol_world where
  "ol_init = \<lparr>st = ol_init_state, view = ol_init_state, dom = [], rt = init_runtime\<rparr>"

subsection \<open>Requests\<close>

definition orders_url :: string where
  "orders_url = ''http://api.example.com/orders''"

definition order_url :: "jsval \<Rightarrow> string" where
  "order_url ident = ''http://api.example.com/orders/'' @ js_to_string ident"

definition search_url :: "string \<Rightarrow> string" where
  "search_url q = ''http://api.example.com/orders/search?q='' @ q"

subsection \<open>Effects\<close>

text \<open>The loop of the first effect's handler, \<open>i\<close> and \<open>t\<close> its two variables. It ends
  with an exception when \<open>data\<close> or an element of it is \<open>null\<close> or \<open>undefined\<close>.\<close>

definition loop_bound :: "jsval \<Rightarrow> nat" where
  "loop_bound data =
     (case js_length data of
        Inl e \<Rightarrow> 0
      | Inr len \<Rightarrow> (case to_number len of Some n \<Rightarrow> nat n | None \<Rightarrow> 0))"

function total_loop :: "jsval \<Rightarrow> nat \<Rightarrow> jsval \<Rightarrow> error + jsval" where
  "total_loop data i t =
     (case js_length data of
        Inl e \<Rightarrow> Inl e
      | Inr len \<Rightarrow>
          if js_lt (int i) len then
            (case js_index data i of
               Inl e \<Rightarrow> Inl e
             | Inr x \<Rightarrow>
                 (case get_prop x ''price'' of
                    Inl e \<Rightarrow> Inl e
                  | Inr p \<Rightarrow>
                      (case get_prop x ''quantity'' of
                         Inl e \<Rightarrow> Inl e
                       | Inr q \<Rightarrow> total_loop data (Suc i) (js_add t (js_mul p q)))))
          else Inr t)"
  by pat_completeness auto
termination
  by (relation "measure (\<lambda>(data, i, t). loop_bound data - i)")
     (auto simp: loop_bound_def js_lt_def split: option.splits)

declare total_loop.simps [simp del]

text \<open>The handler of the first effect (source lines 16 to 24): \<open>setOrders(data)\<close>, the
  loop, \<open>setTotal(t)\<close>, \<open>setLoading(false)\<close>. An exception in the loop rejects the promise
  of the chain, which nothing handles: the two last setters are not called.\<close>

definition initial_fetch_then :: "jsval \<Rightarrow> ol_world \<Rightarrow> ol_world" where
  "initial_fetch_then data w =
     (let w1 = set_state (\<lambda>s. s\<lparr>ol_orders := data\<rparr>) w in
      case total_loop data 0 (JNum 0) of
        Inl e \<Rightarrow> w1
      | Inr t \<Rightarrow> set_state (\<lambda>s. s\<lparr>ol_loading := False\<rparr>)
                 (set_state (\<lambda>s. s\<lparr>ol_total := t\<rparr>) w1))"

text \<open>The first effect (lines 12 to 25): no dependency array, no return value.\<close>

definition ol_fetch_effect :: "ol_world \<Rightarrow> ol_world \<times> cleanup option" where
  "ol_fetch_effect w =
     (fetch (GET, orders_url) InitialFetchThen
        (set_state (\<lambda>s. s\<lparr>ol_loading := True\<rparr>) w), None)"

text \<open>The second effect (lines 27 to 33): dependency array \<open>[]\<close>, no return value; the
  id that \<open>setInterval\<close> returns is bound to a constant that nothing reads.\<close>

definition ol_interval_effect :: "ol_world \<Rightarrow> ol_world \<times> cleanup option" where
  "ol_interval_effect w = (setInterval PollOrders 1000 w, None)"

text \<open>The callback of the interval (lines 29 to 31).\<close>

fun ol_run_callback :: "ol_callback \<Rightarrow> ol_world \<Rightarrow> ol_world" where
  "ol_run_callback PollOrders w = fetch (GET, orders_url) SetOrdersThen w"

fun ol_run_then :: "ol_then \<Rightarrow> jsval \<Rightarrow> ol_world \<Rightarrow> ol_world" where
  "ol_run_then InitialFetchThen data w = initial_fetch_then data w"
| "ol_run_then SetOrdersThen d w = set_state (\<lambda>s. s\<lparr>ol_orders := d\<rparr>) w"
| "ol_run_then NoThen d w = w"

subsection \<open>Handlers and helpers\<close>

definition txt_deleted :: string where
  "txt_deleted = [CHR 0xEC, CHR 0x82, CHR 0xAD, CHR 0xEC, CHR 0xA0, CHR 0x9C, CHR 0xEB,
     CHR 0x90, CHR 0xA8]"

text \<open>\<open>handleDelete\<close> (lines 35 to 39).\<close>

definition ol_handleDelete :: "jsval \<Rightarrow> ol_world \<Rightarrow> ol_world" where
  "ol_handleDelete ident w =
     set_state (\<lambda>s. s\<lparr>ol_trigger := ol_trigger s + 1\<rparr>)
       (alert txt_deleted (fetch (DELETE, order_url ident) NoThen w))"

text \<open>\<open>getStatusColor\<close>, with its four tests in the order of the source; the fourth
  repeats the first.\<close>

definition getStatusColor :: "jsval \<Rightarrow> string" where
  "getStatusColor status =
     (if js_loose_eq status (JStr ''pending'') then ''orange''
      else if js_loose_eq status (JStr ''completed'') then ''green''
      else if js_loose_eq status (JStr ''cancelled'') then ''red''
      else if js_loose_eq status (JStr ''pending'') then ''yellow''
      else ''gray'')"

text \<open>\<open>formatPrice\<close> (lines 49 to 51). The regular expression matches the empty string at
  every place that is not a word boundary and is followed by a run of digits whose
  length is a positive multiple of three; as the next character is then a digit, such a
  place is one whose previous character is a word character. \<open>insert_commas\<close> carries
  whether the previous character was one.\<close>

definition is_word :: "char \<Rightarrow> bool" where
  "is_word c =
     (c \<in> set ''abcdefghijklmnopqrstuvwxyzABCDEFGHIJKLMNOPQRSTUVWXYZ0123456789_'')"

fun insert_commas :: "bool \<Rightarrow> string \<Rightarrow> string" where
  "insert_commas prev_word [] = []"
| "insert_commas prev_word (c # cs) =
     (let run = length (takeWhile is_digit (c # cs)) in
      (if prev_word \<and> 0 < run \<and> run mod 3 = 0 then '','' else [])
        @ c # insert_commas (is_word c) cs)"

definition txt_won :: string where
  "txt_won = [CHR 0xEC, CHR 0x9B, CHR 0x90]"

definition formatPrice :: "jsval \<Rightarrow> error + string" where
  "formatPrice price =
     (if nullish price then Inl TypeError
      else Inr (insert_commas False (js_to_string price) @ txt_won))"

subsection \<open>Rendering\<close>

definition txt_loading :: string where
  "txt_loading = [CHR 0xEB, CHR 0xA1, CHR 0x9C, CHR 0xEB, CHR 0x94, CHR 0xA9, CHR 0xEC,
     CHR 0xA4, CHR 0x91] @ ''...''"

definition txt_pieces :: string where
  "txt_pieces = [CHR 0xEA, CHR 0xB0, CHR 0x9C]"

definition txt_receipt :: string where
  "txt_receipt = [CHR 0xEC, CHR 0x98, CHR 0x81, CHR 0xEC, CHR 0x88, CHR 0x98, CHR 0xEC,
     CHR 0xA6, CHR 0x9D]"

definition txt_total :: string where
  "txt_total = [CHR 0xEC, CHR 0xB4, CHR 0x9D, CHR 0x20, CHR 0xEA, CHR 0xB8, CHR 0x88,
     CHR 0xEC, CHR 0x95, CHR 0xA1] @ '': ''"

definition txt_search :: string where
  "txt_search = [CHR 0xEC, CHR 0xA3, CHR 0xBC, CHR 0xEB, CHR 0xAC, CHR 0xB8, CHR 0x20,
     CHR 0xEA, CHR 0xB2, CHR 0x80, CHR 0xEC, CHR 0x83, CHR 0x89]"

text \<open>One row of \<open>order.items.map\<close> (lines 70 to 75).\<close>

definition render_order_item :: "jsval \<Rightarrow> error + ol_handler vnode" where
  "render_order_item item =
     bindE (get_prop item ''name'') (\<lambda>name.
     bindE (get_prop item ''price'') (\<lambda>price.
     bindE (get_prop item ''qty'') (\<lambda>qty.
       Inr (Elem ''div'' []
         [Elem ''span'' [] [Expr name],
          Elem ''span'' [] [Expr (js_mul price qty), Text txt_won]]))))"

text \<open>One row of \<open>orders.map\<close> (lines 57 to 79).\<close>

definition render_order :: "jsval \<Rightarrow> jsval \<Rightarrow> error + ol_handler vnode" where
  "render_order selectedId order =
     bindE (get_prop order ''status'') (\<lambda>status.
     bindE (get_prop order ''id'') (\<lambda>ident.
     bindE (get_prop order ''customerName'') (\<lambda>customerName.
     bindE (get_prop order ''price'') (\<lambda>price.
     bindE (formatPrice price) (\<lambda>price_text.
     bindE (get_prop order ''quantity'') (\<lambda>quantity.
     bindE (get_prop order ''thumbnail'') (\<lambda>thumbnail.
     bindE (get_prop order ''memo'') (\<lambda>memo.
     bindE (get_prop order ''items'') (\<lambda>items.
     bindE (js_map render_order_item items) (\<lambda>item_rows.
     bindE (get_prop order ''receiptUrl'') (\<lambda>receiptUrl.
       Inr (Elem ''div''
         [(''onClick'', Handler (OnClickOrder order)),
          (''style'', Val (JObj
             [(''color'', JStr (getStatusColor status)),
              (''padding'', JNum 10),
              (''border'', JStr (if js_loose_eq selectedId ident
                                 then ''2px solid blue'' else ''none''))]))]
         [Elem ''p'' [] [Expr customerName],
          Elem ''p'' [] [Text price_text],
          Elem ''p'' [] [Expr quantity, Text txt_pieces],
          Elem ''img'' [(''src'', Val thumbnail)] [],
          Elem ''div'' [(''dangerouslySetInnerHTML'', Val (JObj [(''__html'', memo)]))] [],
          ArrayOf item_rows,
          Elem ''a'' [(''href'', Val receiptUrl), (''target'', Val (JStr ''_blank''))]
            [Text txt_receipt]]))))))))))))"

text \<open>What \<open>OrderList\<close> returns (lines 53 to 92), or the exception that ends the render.\<close>

definition ol_render :: "ol_state \<Rightarrow> error + ol_handler vnode" where
  "ol_render s =
     bindE (js_map (render_order (ol_selectedId s)) (ol_orders s)) (\<lambda>rows.
     bindE (formatPrice (ol_total s)) (\<lambda>total_text.
       Inr (Elem ''div'' []
         [if ol_loading s then Elem ''p'' [] [Text txt_loading] else Expr (JBool False),
          ArrayOf rows,
          Elem ''p'' [] [Text txt_total, Text total_text],
          Elem ''input''
            [(''type'', Val (JStr ''text'')),
             (''placeholder'', Val (JStr txt_search)),
             (''onChange'', Handler OnChangeSearch)] []])))"

subsection \<open>Steps\<close>

text \<open>A render and its commit. A render that throws has no error boundary to catch
  it: React removes the component. After a commit the effects that are due run: the
  first effect has no dependency array, the second has the array \<open>[]\<close>.\<close>

definition ol_commit :: "bool \<Rightarrow> ol_world \<Rightarrow> ol_world" where
  "ol_commit first w =
     (case ol_render (st w) of
        Inl e \<Rightarrow> unmount w
      | Inr tree \<Rightarrow>
          (let w0 = w\<lparr>view := st w, dom := handlers_of tree, rt := (rt w)\<lparr>phase := Mounted\<rparr>\<rparr>;
               w1 = (if effect_due first None None then run_effect 0 ol_fetch_effect w0 else w0)
           in if effect_due first (Some []) (Some []) then run_effect 1 ol_interval_effect w1
              else w1))"

text \<open>The handlers of the tree: a click on the row of an order (line 58), a change of the
  search box (lines 85 to 89), \<open>arg\<close> being \<open>e.target.value\<close>.\<close>

fun ol_fire :: "ol_handler \<Rightarrow> jsval \<Rightarrow> ol_world \<Rightarrow> ol_world" where
  "ol_fire (OnClickOrder order) arg w = ol_handleDelete (js_get order ''id'') w"
| "ol_fire OnChangeSearch arg w = fetch (GET, search_url (js_to_string arg)) SetOrdersThen w"

fun ol_step :: "ol_world \<Rightarrow> ol_handler event \<Rightarrow> ol_world" where
  "ol_step w Mount = (if phase (rt w) = NotMounted then ol_commit True w else w)"
| "ol_step w Rerender = (if phase (rt w) = Mounted then ol_commit False w else w)"
| "ol_step w Unmount = (if phase (rt w) = Mounted then unmount w else w)"
| "ol_step w (Tick i) =
     (case map_of (timers (rt w)) i of
        Some (cb, ms) \<Rightarrow> ol_run_callback cb w
      | None \<Rightarrow> w)"
| "ol_step w (Fire h arg) =
     (if phase (rt w) = Mounted \<and> h \<in> set (dom w) then ol_fire h arg w else w)"
| "ol_step w (Resolve i data) =
     (if pending w i then ol_run_then (snd (requests (rt w) ! i)) data (settle i w) else w)"
| "ol_step w (Reject i) = (if pending w i then settle i w else w)"

text \<open>The state after a sequence of events, from the component before its mount.\<close>

definition ol_run :: "ol_handler event list \<Rightarrow> ol_world" where
  "ol_run es = foldl ol_step ol_init es"

section \<open>UserProfile\<close>

subsection \<open>State\<close>

text \<open>
  \<open>items\<close> holds an array that two handlers share and one of them changes in place
  (\<open>items.push\<close>), so arrays in this cell are references into a heap of arrays;
  a value that is not an array is kept as it is. (\<open>userData\<close> keeps the parsed response
  as a value: no code reads \<open>userData.items\<close> after the fetch, so that it is the same
  array is not observable.)
\<close>

datatype items_ref = ArrayAt nat | Plain jsval

text \<open>The five \<open>useState\<close> cells of \<open>UserProfile\<close>.\<close>

record up_state =
  up_userData :: jsval
  up_loading :: bool
  up_items :: items_ref
  up_error :: jsval
  up_count :: int

text \<open>The handlers chained on a \<open>fetch\<close>: the two \<open>then\<close>s of the effect
  (\<open>UserFetchThen\<close>), and the rest of \<open>handleDelete\<close> after its \<open>await\<close>, with the
  \<open>items\<close> and the \<open>itemId\<close> its closure holds (\<open>AfterDelete\<close>).\<close>

datatype up_then = UserFetchThen | AfterDelete items_ref jsval

text \<open>The closures its tree holds: the \<open>onClick\<close> of the row of an item and of the button
  in that row, each with the item it has captured, and the \<open>onClick\<close> of the last button.
  \<open>UserProfile\<close> calls \<open>setInterval\<close> nowhere: its timers have no callback to name.
  \<open>heap\<close>: the arrays, by address.\<close>

datatype up_handler = OnClickItem jsval | OnClickDelete jsval | OnClickAdd

record up_world = "(up_state, up_then, unit, up_handler) world" +
  heap :: "jsval list list"

definition up_init_state :: up_state where
  "up_init_state = \<lparr>up_userData = JNull, up_loading = False, up_items = ArrayAt 0,
     up_error = JStr [], up_count = 0\<rparr>"

text \<open>Before the mount: the initial values, the array of \<open>useState([])\<close> at address 0.\<close>

definition up_init :: up_world where
  "up_init = \<lparr>st = up_init_state, view = up_init_state, dom = [], rt = init_runtime,
     heap = [[]]\<rparr>"

definition deref :: "up_world \<Rightarrow> nat \<Rightarrow> jsval list" where
  "deref w a = (if a < length (heap w) then heap w ! a else [])"

text \<open>A new array object: the one \<open>res.json()\<close> built, or the result of \<open>filter\<close>.\<close>

definition alloc :: "jsval list \<Rightarrow> up_world \<Rightarrow> items_ref \<times> up_world" where
  "alloc xs w = (ArrayAt (length (heap w)), w\<lparr>heap := heap w @ [xs]\<rparr>)"

text \<open>\<open>setItems(v)\<close> for a value that has just been parsed or built.\<close>

definition setItems_value :: "jsval \<Rightarrow> up_world \<Rightarrow> up_world" where
  "setItems_value v w =
     (case v of
        JArr xs \<Rightarrow> (let (r, w1) = alloc xs w in set_state (\<lambda>s. s\<lparr>up_items := r\<rparr>) w1)
      | _ \<Rightarrow> set_state (\<lambda>s. s\<lparr>up_items := Plain v\<rparr>) w)"

subsection \<open>What the component takes from outside\<close>

text \<open>
  \<open>props.id\<close>; and, for \<open>calculateAge\<close>, the two uses of the built-in \<open>Date\<close>: the date
  \<open>new Date()\<close> reads from the clock, and the date \<open>new Date(birthDate)\<close> parses
  (\<open>None\<close> when it is an invalid date). A date is what \<open>getFullYear\<close>, \<open>getMonth\<close> and
  \<open>getDate\<close> return.
\<close>

record date =
  year :: int
  month :: int
  day :: int

record up_env =
  props_id :: jsval
  today :: date
  parse_date :: "jsval \<Rightarrow> date option"

subsection \<open>Requests\<close>

definition user_url :: "jsval \<Rightarrow> string" where
  "user_url ident = ''https://api.example.com/users/'' @ js_to_string ident"

definition item_url :: "jsval \<Rightarrow> string" where
  "item_url itemId = ''https://api.example.com/items/'' @ js_to_string itemId"

subsection \<open>Effects\<close>

text \<open>The handler of the effect (lines 14 to 18). \<open>data.items\<close> throws on \<open>null\<close>, after
  the two first setters.\<close>

definition user_fetch_then :: "jsval \<Rightarrow> up_world \<Rightarrow> up_world" where
  "user_fetch_then data w =
     (let w1 = set_state (\<lambda>s. s\<lparr>up_loading := False\<rparr>)
                 (set_state (\<lambda>s. s\<lparr>up_userData := data\<rparr>) w) in
      case get_prop data ''items'' of
        Inl e \<Rightarrow> w1
      | Inr v \<Rightarrow> setItems_value v w1)"

text \<open>The first effect (lines 10 to 19): dependency array \<open>[]\<close>, no return value.\<close>

definition up_fetch_effect :: "up_env \<Rightarrow> up_world \<Rightarrow> up_world \<times> cleanup option" where
  "up_fetch_effect env w =
     (fetch (GET, user_url (props_id env)) UserFetchThen
        (set_state (\<lambda>s. s\<lparr>up_loading := True\<rparr>) w), None)"

text \<open>The second effect (lines 21 to 23): no dependency array, no return value. It logs
  the \<open>userData\<close> of the render that was committed.\<close>

definition up_log_effect :: "up_world \<Rightarrow> up_world \<times> cleanup option" where
  "up_log_effect w =
     (console_log [JStr ''userData changed'', up_userData (view w)] w, None)"

subsection \<open>Handlers and helpers\<close>

text \<open>\<open>xs.filter(p)\<close> where \<open>p\<close> can throw.\<close>

fun filterE :: "('a \<Rightarrow> error + bool) \<Rightarrow> 'a list \<Rightarrow> error + 'a list" where
  "filterE p [] = Inr []"
| "filterE p (x # xs) =
     (case p x of
        Inl e \<Rightarrow> Inl e
      | Inr b \<Rightarrow>
          (case filterE p xs of
             Inl e \<Rightarrow> Inl e
           | Inr ys \<Rightarrow> Inr (if b then x # ys else ys)))"

text \<open>\<open>handleDelete\<close> (lines 25 to 30) up to its \<open>await\<close>: the request is issued, and the
  rest of the function waits for it with the \<open>items\<close> of the render that made the
  closure.\<close>

definition up_handleDelete :: "jsval \<Rightarrow> up_world \<Rightarrow> up_world" where
  "up_handleDelete itemId w =
     fetch (DELETE, item_url itemId) (AfterDelete (up_items (view w)) itemId) w"

text \<open>\<open>handleDelete\<close> after its \<open>await\<close> (line 29), once the request is fulfilled:
  \<open>items.filter\<close> reads the array as it is now, builds a new one and \<open>setItems\<close> stores
  it. \<open>filter\<close> is a method of arrays only, and \<open>item.id\<close> throws on \<open>null\<close>: then the
  promise of \<open>handleDelete\<close> is rejected and nothing is set.\<close>

definition after_delete :: "items_ref \<Rightarrow> jsval \<Rightarrow> up_world \<Rightarrow> up_world" where
  "after_delete items itemId w =
     (case items of
        Plain v \<Rightarrow> w
      | ArrayAt a \<Rightarrow>
          (case filterE (\<lambda>item. bindE (get_prop item ''id'')
                                 (\<lambda>ident. Inr (\<not> js_strict_eq ident itemId)))
                  (deref w a) of
             Inl e \<Rightarrow> w
           | Inr kept \<Rightarrow> setItems_value (JArr kept) w))"

fun up_run_then :: "up_then \<Rightarrow> jsval \<Rightarrow> up_world \<Rightarrow> up_world" where
  "up_run_then UserFetchThen data w = user_fetch_then data w"
| "up_run_then (AfterDelete items itemId) response w = after_delete items itemId w"

text \<open>The \<open>onClick\<close> of an item's row (lines 78 to 81), with the \<open>count\<close> of the render that
  made the closure.\<close>

definition item_onClick :: "jsval \<Rightarrow> up_world \<Rightarrow> up_world" where
  "item_onClick item w =
     alert (js_to_string (js_add (JStr ''clicked '') (js_get item ''name'')))
       (set_state (\<lambda>s. s\<lparr>up_count := up_count (view w) + 1\<rparr>) w)"

definition txt_new_item :: string where
  "txt_new_item = [CHR 0xEC, CHR 0x83, CHR 0x88, CHR 0x20, CHR 0xEC, CHR 0x95, CHR 0x84,
     CHR 0xEC, CHR 0x9D, CHR 0xB4, CHR 0xED, CHR 0x85, CHR 0x9C]"

text \<open>The \<open>onClick\<close> of the last button (lines 121 to 130), \<open>r\<close> the number that
  \<open>Math.random()\<close> returned: \<open>push\<close> changes the array of the closure in place, and
  \<open>setItems\<close> is given that same array.\<close>

definition add_onClick :: "jsval \<Rightarrow> up_world \<Rightarrow> up_world" where
  "add_onClick r w =
     (let newItem = JObj [(''id'', r), (''name'', JStr txt_new_item),
                          (''price'', JNum 0), (''isActive'', JBool True)] in
      case up_items (view w) of
        Plain v \<Rightarrow> w
      | ArrayAt a \<Rightarrow>
          set_state (\<lambda>s. s\<lparr>up_items := ArrayAt a\<rparr>)
            (w\<lparr>heap := (heap w)[a := deref w a @ [newItem]]\<rparr>))"

text \<open>\<open>getFullName\<close> (lines 32 to 46).\<close>

definition getFullName :: "jsval \<Rightarrow> jsval" where
  "getFullName userData =
     (if truthy userData then
        (if truthy (js_get userData ''firstName'') then
           (if truthy (js_get userData ''lastName'') then
              js_add (js_add (js_get userData ''firstName'') (JStr '' ''))
                (js_get userData ''lastName'')
            else js_get userData ''firstName'')
         else JStr ''Unknown'')
      else JStr ''Loading...'')"

text \<open>\<open>calculateAge\<close> (lines 48 to 57). The getters of an invalid date return \<open>NaN\<close>, which
  makes both comparisons false.\<close>

definition calculateAge :: "up_env \<Rightarrow> jsval \<Rightarrow> jsval" where
  "calculateAge env birthDate =
     (case parse_date env birthDate of
        None \<Rightarrow> JNaN
      | Some birth \<Rightarrow>
          (let age = year (today env) - year birth;
               m = month (today env) - month birth
           in JNum (if m < 0 \<or> (m = 0 \<and> day (today env) < day birth) then age - 1 else age)))"

subsection \<open>Rendering\<close>

definition txt_email :: string where
  "txt_email =
     [CHR 0xEC, CHR 0x9D, CHR 0xB4, CHR 0xEB, CHR 0xA9, CHR 0x94, CHR 0xEC, CHR 0x9D,
     CHR 0xBC] @ '': ''"

definition txt_age :: string where
  "txt_age =
     [CHR 0xEB, CHR 0x82, CHR 0x98, CHR 0xEC, CHR 0x9D, CHR 0xB4] @ '': ''"

definition txt_years :: string where
  "txt_years =
     [CHR 0xEC, CHR 0x84, CHR 0xB8]"

definition txt_status :: string where
  "txt_status =
     [CHR 0xEC, CHR 0x83, CHR 0x81, CHR 0xED, CHR 0x83, CHR 0x9C] @ '':''"

definition txt_active :: string where
  "txt_active =
     [CHR 0xED, CHR 0x99, CHR 0x9C, CHR 0xEC, CHR 0x84, CHR 0xB1]"

definition txt_inactive :: string where
  "txt_inactive =
     [CHR 0xEB, CHR 0xB9, CHR 0x84, CHR 0xED, CHR 0x99, CHR 0x9C, CHR 0xEC, CHR 0x84,
     CHR 0xB1]"

definition txt_banned :: string where
  "txt_banned =
     [CHR 0xEC, CHR 0xB0, CHR 0xA8, CHR 0xEB, CHR 0x8B, CHR 0xA8, CHR 0xEB, CHR 0x90,
     CHR 0xA8]"

definition txt_unknown :: string where
  "txt_unknown =
     [CHR 0xEC, CHR 0x95, CHR 0x8C, CHR 0x20, CHR 0xEC, CHR 0x88, CHR 0x98, CHR 0x20,
     CHR 0xEC, CHR 0x97, CHR 0x86, CHR 0xEC, CHR 0x9D, CHR 0x8C]"

definition txt_clicks :: string where
  "txt_clicks =
     [CHR 0xED, CHR 0x81, CHR 0xB4, CHR 0xEB, CHR 0xA6, CHR 0xAD, CHR 0x20, CHR 0xED,
     CHR 0x9A, CHR 0x9F, CHR 0xEC, CHR 0x88, CHR 0x98] @ '': ''"

definition txt_item_list :: string where
  "txt_item_list =
     [CHR 0xEC, CHR 0x95, CHR 0x84, CHR 0xEC, CHR 0x9D, CHR 0xB4, CHR 0xED, CHR 0x85,
     CHR 0x9C, CHR 0x20, CHR 0xEB, CHR 0xAA, CHR 0xA9, CHR 0xEB, CHR 0xA1, CHR 0x9D] @ '' (''"

definition txt_delete :: string where
  "txt_delete =
     [CHR 0xEC, CHR 0x82, CHR 0xAD, CHR 0xEC, CHR 0xA0, CHR 0x9C]"

definition txt_add_item :: string where
  "txt_add_item =
     [CHR 0xEC, CHR 0x95, CHR 0x84, CHR 0xEC, CHR 0x9D, CHR 0xB4, CHR 0xED, CHR 0x85,
     CHR 0x9C, CHR 0x20, CHR 0xEC, CHR 0xB6, CHR 0x94, CHR 0xEA, CHR 0xB0, CHR 0x80]"

text \<open>One row of \<open>renderItems\<close> (lines 60 to 93).\<close>

definition render_item :: "nat \<times> jsval \<Rightarrow> error + up_handler vnode" where
  "render_item p =
     (case p of (index, item) \<Rightarrow>
     bindE (get_prop item ''isActive'') (\<lambda>isActive.
     bindE (get_prop item ''name'') (\<lambda>name.
     bindE (get_prop item ''price'') (\<lambda>price.
       Inr (Elem ''div''
         [(''key'', Val (JNum (int index))),
          (''style'', Val (JObj
             [(''padding'', JStr ''10px''),
              (''margin'', JStr ''5px''),
              (''border'', JStr ''1px solid #ccc''),
              (''backgroundColor'', JStr (if truthy isActive then ''green'' else ''red'')),
              (''color'', JStr ''white''),
              (''fontSize'', JStr ''14px''),
              (''fontWeight'', JStr ''bold''),
              (''display'', JStr ''flex''),
              (''justifyContent'', JStr ''space-between''),
              (''alignItems'', JStr ''center''),
              (''borderRadius'', JStr ''4px''),
              (''cursor'', JStr ''pointer'')])),
          (''onClick'', Handler (OnClickItem item))]
         [Elem ''span'' [] [Expr name],
          Elem ''span'' [] [Expr price],
          Elem ''button''
            [(''style'', Val (JObj
                [(''backgroundColor'', JStr ''white''),
                 (''color'', JStr ''red''),
                 (''border'', JStr ''none'')])),
             (''onClick'', Handler (OnClickDelete item))]
            [Text txt_delete]])))))"

text \<open>\<open>items.length\<close> and \<open>renderItems()\<close>: \<open>items.map\<close> with the index of each item.\<close>

definition items_length :: "up_world \<Rightarrow> items_ref \<Rightarrow> error + jsval" where
  "items_length w items =
     (case items of
        ArrayAt a \<Rightarrow> Inr (JNum (int (length (deref w a))))
      | Plain v \<Rightarrow> js_length v)"

definition renderItems :: "up_world \<Rightarrow> items_ref \<Rightarrow> error + up_handler vnode list" where
  "renderItems w items =
     (case items of
        ArrayAt a \<Rightarrow> mapE render_item (enumerate 0 (deref w a))
      | Plain v \<Rightarrow> Inl TypeError)"

text \<open>The nested conditional of lines 108 to 114.\<close>

definition status_text :: "jsval \<Rightarrow> string" where
  "status_text status =
     (if js_loose_eq status (JStr ''active'') then txt_active
      else if js_loose_eq status (JStr ''inactive'') then txt_inactive
      else if js_loose_eq status (JStr ''banned'') then txt_banned
      else txt_unknown)"

text \<open>The fragment of lines 103 to 134, rendered when \<open>userData\<close> is truthy.\<close>

definition render_profile :: "up_env \<Rightarrow> up_world \<Rightarrow> error + up_handler vnode" where
  "render_profile env w =
     (let s = st w; userData = up_userData s in
      bindE (items_length w (up_items s)) (\<lambda>n.
      bindE (renderItems w (up_items s)) (\<lambda>item_rows.
        Inr (Fragment
          [Elem ''p'' [] [Text txt_email, Expr (js_get userData ''email'')],
           Elem ''p'' []
             [Text txt_age, Expr (calculateAge env (js_get userData ''birthDate'')),
              Text txt_years],
           Elem ''p'' []
             [Text txt_status, Text '' '', Text (status_text (js_get userData ''status''))],
           Elem ''p'' [] [Text txt_clicks, Expr (JNum (up_count s))],
           Elem ''div''
             [(''dangerouslySetInnerHTML'',
               Val (JObj [(''__html'', js_get userData ''bio'')]))] [],
           Elem ''h2'' [] [Text txt_item_list, Expr n, Text (txt_pieces @ '')'')],
           ArrayOf item_rows,
           Elem ''button'' [(''onClick'', Handler OnClickAdd)] [Text txt_add_item]]))))"

text \<open>The three views \<open>UserProfile\<close> can return: while loading (line 96), on an error
  (line 97), and the profile (lines 99 to 137).\<close>

definition loading_view :: "up_handler vnode" where
  "loading_view = Elem ''div'' [] [Text txt_loading]"

definition error_view :: "jsval \<Rightarrow> up_handler vnode" where
  "error_view err =
     Elem ''div'' [(''style'', Val (JObj [(''color'', JStr ''red'')]))] [Expr err]"

definition profile_view :: "up_env \<Rightarrow> up_world \<Rightarrow> error + up_handler vnode" where
  "profile_view env w =
     bindE (if truthy (up_userData (st w)) then render_profile env w
            else Inr (Expr (up_userData (st w)))) (\<lambda>profile.
       Inr (Elem ''div''
         [(''style'', Val (JObj
             [(''padding'', JStr ''20px''),
              (''maxWidth'', JStr ''600px''),
              (''margin'', JStr ''0 auto'')]))]
         [Elem ''h1'' [] [Expr (getFullName (up_userData (st w)))], profile]))"

text \<open>What \<open>UserProfile\<close> returns for the state of \<open>w\<close>, or the exception that ends the
  render.\<close>

definition up_render :: "up_env \<Rightarrow> up_world \<Rightarrow> error + up_handler vnode" where
  "up_render env w =
     (if up_loading (st w) then Inr loading_view
      else if truthy (up_error (st w)) then Inr (error_view (up_error (st w)))
      else profile_view env w)"

subsection \<open>Steps\<close>

text \<open>A render and its commit: the first effect has the dependency array \<open>[]\<close>, the
  second has none.\<close>

definition up_commit :: "up_env \<Rightarrow> bool \<Rightarrow> up_world \<Rightarrow> up_world" where
  "up_commit env first w =
     (case up_render env w of
        Inl e \<Rightarrow> unmount w
      | Inr tree \<Rightarrow>
          (let w0 = w\<lparr>view := st w, dom := handlers_of tree, rt := (rt w)\<lparr>phase := Mounted\<rparr>\<rparr>;
               w1 = (if effect_due first (Some []) (Some [])
                     then run_effect 0 (up_fetch_effect env) w0 else w0)
           in if effect_due first None None then run_effect 1 up_log_effect w1 else w1))"

text \<open>The handlers of the tree. The button of a row is inside the row and does not stop
  the event: a click on it calls \<open>handleDelete(item.id)\<close> and then the \<open>onClick\<close> of the
  row. For the last button \<open>arg\<close> is the number \<open>Math.random()\<close> returns.\<close>

fun up_fire :: "up_handler \<Rightarrow> jsval \<Rightarrow> up_world \<Rightarrow> up_world" where
  "up_fire (OnClickItem item) arg w = item_onClick item w"
| "up_fire (OnClickDelete item) arg w =
     item_onClick item (up_handleDelete (js_get item ''id'') w)"
| "up_fire OnClickAdd arg w = add_onClick arg w"

fun up_step :: "up_env \<Rightarrow> up_world \<Rightarrow> up_handler event \<Rightarrow> up_world" where
  "up_step env w Mount = (if phase (rt w) = NotMounted then up_commit env True w else w)"
| "up_step env w Rerender = (if phase (rt w) = Mounted then up_commit env False w else w)"
| "up_step env w Unmount = (if phase (rt w) = Mounted then unmount w else w)"
| "up_step env w (Tick i) = w"
| "up_step env w (Fire h arg) =
     (if phase (rt w) = Mounted \<and> h \<in> set (dom w) then up_fire h arg w else w)"
| "up_step env w (Resolve i data) =
     (if pending w i then up_run_then (snd (requests (rt w) ! i)) data (settle i w) else w)"
| "up_step env w (Reject i) = (if pending w i then settle i w else w)"

definition up_run :: "up_env \<Rightarrow> up_handler event list \<Rightarrow> up_world" where
  "up_run env es = foldl (up_step env) up_init es"

section \<open>The two components side by side\<close>

datatype component = OrderList | UserProfile

text \<open>A component polls when its mount leaves an interval running; it fetches again on a
  render when the render after the mount issues a request.\<close>

definition registers_interval :: "up_env \<Rightarrow> component \<Rightarrow> bool" where
  "registers_interval env c =
     (case c of
        OrderList \<Rightarrow> timers (rt (ol_run [Mount])) \<noteq> []
      | UserProfile \<Rightarrow> timers (rt (up_run env [Mount])) \<noteq> [])"

definition refetches_on_render :: "up_env \<Rightarrow> component \<Rightarrow> bool" where
  "refetches_on_render env c =
     (case c of
        OrderList \<Rightarrow>
          length (requests (rt (ol_run [Mount]))) < length (requests (rt (ol_run [Mount, Rerender])))
      | UserProfile \<Rightarrow>
          length (requests (rt (up_run env [Mount])))
            < length (requests (rt (up_run env [Mount, Rerender]))))"

text \<open>An environment to run \<open>UserProfile\<close> in: user 42, on 17 June 2024 (months count from
  0), with no birth date that parses.\<close>

definition sample_env :: up_env where
  "sample_env = \<lparr>props_id = JNum 42, today = \<lparr>year = 2024, month = 5, day = 17\<rparr>,
     parse_date = (\<lambda>v. None)\<rparr>"

section \<open>Sample data\<close>

text \<open>An order, an item and a user as the API may return them; the memo and the bio carry
  markup.\<close>

definition sample_order :: jsval where
  "sample_order = JObj
     [(''id'', JNum 7), (''status'', JStr ''pending''), (''customerName'', JStr ''Kim''),
      (''price'', JNum 1500), (''quantity'', JNum 2),
      (''memo'', JStr ''<img src=x onerror=alert(1)>''),
      (''items'', JArr [JObj [(''name'', JStr ''tea''), (''price'', JNum 750), (''qty'', JNum 2)]]),
      (''receiptUrl'', JStr ''/receipts/7'')]"

definition sample_item :: jsval where
  "sample_item = JObj [(''id'', JStr ''a''), (''name'', JStr ''bowl''), (''price'', JNum 3),
     (''isActive'', JBool True)]"

definition other_item :: jsval where
  "other_item = JObj [(''id'', JStr ''b''), (''name'', JStr ''lead''), (''price'', JNum 9)]"

definition sample_user :: jsval where
  "sample_user = JObj
     [(''firstName'', JStr ''Ann''), (''lastName'', JStr ''Lee''),
      (''bio'', JStr ''<script>alert(1)</script>''),
      (''items'', JArr [sample_item, other_item])]"

section \<open>Well-formed orders\<close>




section \<open>The endpoints of the REST API\<close>

text \<open>The five endpoints of the specification, and the one a request targets, read off
  its method and its URL: the origin is \<open>api.example.com\<close> over http or https; \<open>:id\<close> and
  the query are whatever follows the fixed part of the path.\<close>

datatype endpoint = GetOrders | DeleteOrder | SearchOrders | GetUser | DeleteItem

definition starts_with :: "string \<Rightarrow> string \<Rightarrow> bool" where
  "starts_with p s = (take (length p) s = p)"

definition path_of :: "string \<Rightarrow> string option" where
  "path_of url =
     (if starts_with ''https://api.example.com'' url
      then Some (drop (length ''https://api.example.com'') url)
      else if starts_with ''http://api.example.com'' url
      then Some (drop (length ''http://api.example.com'') url)
      else None)"

fun endpoint_of :: "request \<Rightarrow> endpoint option" where
  "endpoint_of (GET, url) =
     (case path_of url of
        None \<Rightarrow> None
      | Some path \<Rightarrow>
          if path = ''/orders'' then Some GetOrders
          else if starts_with ''/orders/search?'' path then Some SearchOrders
          else if starts_with ''/users/'' path then Some GetUser
          else None)"
| "endpoint_of (DELETE, url) =
     (case path_of url of
        None \<Rightarrow> None
      | Some path \<Rightarrow>
          if starts_with ''/orders/'' path then Some DeleteOrder
          else if starts_with ''/items/'' path then Some DeleteItem
          else None)"



section \<open>Invariants\<close>

text \<open>Once \<open>OrderList\<close> is mounted, its interval is the one active timer and React holds
  no cleanup.\<close>

definition ol_polling :: "ol_world \<Rightarrow> bool" where
  "ol_polling w = (timers (rt w) = [(0, PollOrders, 1000)] \<and> cleanups (rt w) = []
     \<and> phase (rt w) \<noteq> NotMounted)"

text \<open>\<open>UserProfile\<close> after the request of its effect has failed: \<open>loading\<close> is true and
  every request that carries the handler of the effect has settled.\<close>

definition up_stuck :: "up_world \<Rightarrow> bool" where
  "up_stuck w =
     (up_loading (st w) \<and> phase (rt w) \<noteq> NotMounted \<and>
      (\<forall>i < length (requests (rt w)).
         snd (requests (rt w) ! i) = UserFetchThen \<longrightarrow> i \<in> set (settled (rt w))))"

text \<open>The array at an address exists and holds no \<open>null\<close> or \<open>undefined\<close> item.\<close>

definition solid :: "up_world \<Rightarrow> nat \<Rightarrow> bool" where
  "solid w a = (a < length (heap w) \<and> (\<forall>x \<in> set (heap w ! a). \<not> nullish x))"


section \<open>Facts about the runtime\<close>

lemma run_cleanup_frame:
  "phase (run_cleanup c r) = phase r \<and> requests (run_cleanup c r) = requests r \<and>
   settled (run_cleanup c r) = settled r \<and> next_timer (run_cleanup c r) = next_timer r \<and>
   cleanups (run_cleanup c r) = cleanups r \<and> alerts (run_cleanup c r) = alerts r \<and>
   console (run_cleanup c r) = console r"
  by (cases c) simp

lemma run_cleanups_frame:
  "phase (fold (\<lambda>c. run_cleanup (snd c)) cs r) = phase r \<and>
   requests (fold (\<lambda>c. run_cleanup (snd c)) cs r) = requests r \<and>
   settled (fold (\<lambda>c. run_cleanup (snd c)) cs r) = settled r \<and>
   next_timer (fold (\<lambda>c. run_cleanup (snd c)) cs r) = next_timer r \<and>
   cleanups (fold (\<lambda>c. run_cleanup (snd c)) cs r) = cleanups r \<and>
   alerts (fold (\<lambda>c. run_cleanup (snd c)) cs r) = alerts r \<and>
   console (fold (\<lambda>c. run_cleanup (snd c)) cs r) = console r"
  by (induction cs arbitrary: r) (simp_all add: run_cleanup_frame)

lemma destroy_frame [simp]:
  "phase (destroy which r) = phase r"
  "requests (destroy which r) = requests r"
  "settled (destroy which r) = settled r"
  "next_timer (destroy which r) = next_timer r"
  "alerts (destroy which r) = alerts r"
  "console (destroy which r) = console r"
  "cleanups (destroy which r) = filter (\<lambda>c. \<not> which (fst c)) (cleanups r)"
  by (simp_all add: destroy_def run_cleanups_frame)

lemma destroy_timers [simp]: "cleanups r = [] \<Longrightarrow> timers (destroy which r) = timers r"
  by (simp add: destroy_def)

lemmas runtime_defs = fetch_def set_state_def setInterval_def alert_def console_log_def
  settle_def unmount_def run_effect_def effect_due_def

lemma Text_leaf [simp]: "handlers_of (Text s) = []" "raw_html (Text s) = []"
  by (simp_all add: Text_def)

lemma bindE_Inr: "bindE m f = Inr y \<Longrightarrow> \<exists>x. m = Inr x \<and> f x = Inr y"
  by (cases m) (simp_all add: bindE_def)

lemma mapE_map:
  assumes "mapE f xs = Inr ys" and "\<And>x y. f x = Inr y \<Longrightarrow> g y = h x"
  shows "map g ys = map h xs"
  using assms(1)
proof (induction xs arbitrary: ys)
  case Nil
  then show ?case by simp
next
  case (Cons x xs)
  then show ?case by (auto simp: assms(2) split: sum.splits)
qed

lemma js_map_Inr: "js_map f v = Inr ys \<Longrightarrow> \<exists>xs. v = JArr xs \<and> mapE f xs = Inr ys"
  by (cases v) simp_all

section \<open>Facts about the steps\<close>

text \<open>The mount of each component, and the render after it.\<close>

lemma ol_mount:
  "ol_run [Mount] = ol_init\<lparr>st := ol_init_state\<lparr>ol_loading := True\<rparr>,
     dom := [OnChangeSearch],
     rt := init_runtime\<lparr>phase := Mounted,
       requests := [((GET, orders_url), InitialFetchThen)],
       timers := [(0, PollOrders, 1000)], next_timer := 1\<rparr>\<rparr>"
  by (simp add: ol_run_def ol_commit_def runtime_defs ol_fetch_effect_def ol_interval_effect_def
      ol_init_def init_runtime_def ol_init_state_def Let_def
      ol_render_def bindE_def formatPrice_def nullish_def)

lemma ol_mount_rerender:
  "requests (rt (ol_run [Mount, Rerender])) =
     [((GET, orders_url), InitialFetchThen), ((GET, orders_url), InitialFetchThen)]"
proof -
  have "ol_run [Mount, Rerender] = ol_step (ol_run [Mount]) Rerender"
    by (simp add: ol_run_def)
  then show ?thesis
    by (simp add: ol_mount ol_commit_def runtime_defs ol_fetch_effect_def
      ol_init_def init_runtime_def ol_init_state_def Let_def
      ol_render_def bindE_def formatPrice_def nullish_def)
qed

lemma up_render_init: "\<exists>tree. up_render env up_init = Inr tree \<and> handlers_of tree = []"
  by (simp add: up_render_def up_init_def up_init_state_def profile_view_def bindE_def)

lemma up_mount:
  "up_run env [Mount] = up_init\<lparr>st := up_init_state\<lparr>up_loading := True\<rparr>,
     rt := init_runtime\<lparr>phase := Mounted,
       requests := [((GET, user_url (props_id env)), UserFetchThen)],
       console := [[JStr ''userData changed'', JNull]]\<rparr>\<rparr>"
  using up_render_init [of env]
  by (auto simp: up_run_def up_commit_def runtime_defs up_fetch_effect_def up_log_effect_def
      up_init_def init_runtime_def up_init_state_def Let_def)

lemma up_mount_rerender:
  "requests (rt (up_run env [Mount, Rerender])) = requests (rt (up_run env [Mount]))
   \<and> timers (rt (up_run env [Mount])) = []"
proof -
  have "up_run env [Mount, Rerender] = up_step env (up_run env [Mount]) Rerender"
    by (simp add: up_run_def)
  then show ?thesis
    by (simp add: up_mount up_commit_def up_render_def runtime_defs up_log_effect_def
       up_init_def init_runtime_def up_init_state_def Let_def)
qed

lemma components_compared:
  "registers_interval env OrderList \<and> refetches_on_render env OrderList \<and>
   \<not> registers_interval env UserProfile \<and> \<not> refetches_on_render env UserProfile"
  by (simp add: registers_interval_def refetches_on_render_def ol_mount ol_mount_rerender
      up_mount_rerender)

lemma ol_run_callback_eq: "ol_run_callback cb w = fetch (GET, orders_url) SetOrdersThen w"
  by (cases cb) simp

lemma st_ol_run_callback [simp]: "st (ol_run_callback cb w) = st w"
  by (simp add: ol_run_callback_eq fetch_def)

text \<open>No step writes the \<open>error\<close> cell.\<close>

lemma ol_error_run_then: "ol_error (st (ol_run_then k d w)) = ol_error (st w)"
  by (cases k) (auto simp: initial_fetch_then_def set_state_def Let_def split: sum.splits)

lemma ol_error_step: "ol_error (st (ol_step w e)) = ol_error (st w)"
proof (cases e)
  case (Fire h arg)
  show ?thesis unfolding Fire
    by (cases h) (auto simp: ol_handleDelete_def runtime_defs)
next
  case (Resolve i d)
  show ?thesis unfolding Resolve by (simp add: ol_error_run_then settle_def)
next
  case (Tick i)
  show ?thesis unfolding Tick
    by (auto split: option.splits)
qed (auto simp: ol_commit_def runtime_defs ol_fetch_effect_def ol_interval_effect_def Let_def
       split: sum.splits)

lemma ol_error_foldl: "ol_error (st (foldl ol_step w es)) = ol_error (st w)"
  by (induction es arbitrary: w) (simp_all add: ol_error_step)

lemma up_error_setItems: "up_error (st (setItems_value v w)) = up_error (st w)"
  by (auto simp: setItems_value_def alloc_def set_state_def split: jsval.splits)

lemma up_error_run_then: "up_error (st (up_run_then k d w)) = up_error (st w)"
  by (cases k)
     (auto simp: user_fetch_then_def after_delete_def up_error_setItems set_state_def Let_def
        split: sum.splits items_ref.splits)

lemma up_error_step: "up_error (st (up_step env w e)) = up_error (st w)"
proof (cases e)
  case (Fire h arg)
  show ?thesis unfolding Fire
    by (cases h)
       (auto simp: item_onClick_def up_handleDelete_def add_onClick_def runtime_defs Let_def
          split: items_ref.splits)
next
  case (Resolve i d)
  show ?thesis unfolding Resolve by (simp add: up_error_run_then settle_def)
qed (auto simp: up_commit_def runtime_defs up_fetch_effect_def up_log_effect_def Let_def
       split: sum.splits)

lemma up_error_foldl: "up_error (st (foldl (up_step env) w es)) = up_error (st w)"
  by (induction es arbitrary: w) (simp_all add: up_error_step)

text \<open>A request that has settled stays settled.\<close>

lemma settled_ol_run_then: "settled (rt (ol_run_then k d w)) = settled (rt w)
    \<and> requests (rt (ol_run_then k d w)) = requests (rt w)"
  by (cases k) (auto simp: initial_fetch_then_def set_state_def Let_def split: sum.splits)

lemma settled_ol_step:
  "set (settled (rt w)) \<subseteq> set (settled (rt (ol_step w e)))"
proof (cases e)
  case (Fire h arg)
  show ?thesis unfolding Fire
    by (cases h) (auto simp: ol_handleDelete_def runtime_defs)
next
  case (Resolve i d)
  show ?thesis unfolding Resolve by (auto simp: settled_ol_run_then settle_def)
next
  case (Tick i)
  show ?thesis unfolding Tick
    by (auto simp: ol_run_callback_eq fetch_def split: option.splits)
qed (auto simp: ol_commit_def runtime_defs ol_fetch_effect_def ol_interval_effect_def Let_def
       split: sum.splits)

lemma settled_ol_foldl: "set (settled (rt w)) \<subseteq> set (settled (rt (foldl ol_step w es)))"
proof (induction es arbitrary: w)
  case Nil
  show ?case by simp
next
  case (Cons e es)
  from settled_ol_step [of w e] Cons [of "ol_step w e"] show ?case by auto
qed

lemma settled_setItems: "settled (rt (setItems_value v w)) = settled (rt w)
   \<and> requests (rt (setItems_value v w)) = requests (rt w)
   \<and> phase (rt (setItems_value v w)) = phase (rt w)
   \<and> up_loading (st (setItems_value v w)) = up_loading (st w)"
  by (auto simp: setItems_value_def alloc_def set_state_def split: jsval.splits)

lemma settled_up_run_then: "settled (rt (up_run_then k d w)) = settled (rt w)
    \<and> requests (rt (up_run_then k d w)) = requests (rt w)
    \<and> phase (rt (up_run_then k d w)) = phase (rt w)"
  by (cases k)
     (auto simp: user_fetch_then_def after_delete_def settled_setItems set_state_def Let_def
        split: sum.splits items_ref.splits)

lemma settled_up_step:
  "set (settled (rt w)) \<subseteq> set (settled (rt (up_step env w e)))"
proof (cases e)
  case (Fire h arg)
  show ?thesis unfolding Fire
    by (cases h)
       (auto simp: item_onClick_def up_handleDelete_def add_onClick_def runtime_defs Let_def
          split: items_ref.splits)
next
  case (Resolve i d)
  show ?thesis unfolding Resolve by (auto simp: settled_up_run_then settle_def)
qed (auto simp: up_commit_def runtime_defs up_fetch_effect_def up_log_effect_def Let_def
       split: sum.splits)

lemma settled_up_foldl:
  "set (settled (rt w)) \<subseteq> set (settled (rt (foldl (up_step env) w es)))"
proof (induction es arbitrary: w)
  case Nil
  show ?case by simp
next
  case (Cons e es)
  from settled_up_step [of w env e] Cons [of "up_step env w e"] show ?case by auto
qed

section \<open>C1: the colour of a status\<close>

lemma js_loose_eq_str: "js_loose_eq (JStr s) (JStr t) = (s = t)"
  by (simp add: js_loose_eq_def nullish_def is_object_def is_str_def)

text \<open>
  C1. \<open>getStatusColor\<close> returns the value of the first test that matches: for every
  status string, \<open>orange\<close> for \<open>pending\<close>, \<open>green\<close> for \<open>completed\<close>, \<open>red\<close> for \<open>cancelled\<close>
  and \<open>gray\<close> for any other string. The second test for \<open>pending\<close> is dead code: no
  argument at all, string or not, makes the function return \<open>yellow\<close>.
\<close>

theorem getStatusColor_first_match:
  "getStatusColor (JStr s) =
     (if s = ''pending'' then ''orange''
      else if s = ''completed'' then ''green''
      else if s = ''cancelled'' then ''red''
      else ''gray'')
   \<and> getStatusColor v \<noteq> ''yellow''"
  by (simp add: getStatusColor_def js_loose_eq_str)

theorem getStatusColor_first_match_witness:
  "getStatusColor (JStr ''pending'') = ''orange''
   \<and> getStatusColor (JStr ''completed'') = ''green''
   \<and> getStatusColor (JStr ''cancelled'') = ''red''
   \<and> getStatusColor (JStr ''shipped'') = ''gray''
   \<and> getStatusColor (JArr [JStr ''pending'']) \<noteq> ''yellow''"
  using getStatusColor_first_match [of "''pending''" "JArr [JStr ''pending'']"]
    getStatusColor_first_match [of "''completed''" JNull]
    getStatusColor_first_match [of "''cancelled''" JNull]
    getStatusColor_first_match [of "''shipped''" JNull]
  by simp

section \<open>C2: the interval is never cancelled\<close>

lemma ol_polling_run_then: "ol_polling w \<Longrightarrow> ol_polling (ol_run_then k d w)"
  by (cases k)
     (auto simp: ol_polling_def initial_fetch_then_def set_state_def Let_def split: sum.splits)

lemma ol_polling_step: "ol_polling w \<Longrightarrow> ol_polling (ol_step w e)"
proof (cases e)
  case (Fire h arg)
  assume "ol_polling w"
  then show ?thesis unfolding Fire
    by (cases h) (auto simp: ol_polling_def ol_handleDelete_def runtime_defs)
next
  case (Resolve i d)
  assume "ol_polling w"
  then have "ol_polling (settle i w)" by (simp add: ol_polling_def settle_def)
  then show ?thesis unfolding Resolve using \<open>ol_polling w\<close> by (simp add: ol_polling_run_then)
next
  case (Tick i)
  assume "ol_polling w"
  then show ?thesis unfolding Tick
    by (auto simp: ol_polling_def fetch_def split: option.splits ol_callback.splits)
qed (auto simp: ol_polling_def ol_commit_def runtime_defs ol_fetch_effect_def Let_def
       split: sum.splits)

lemma ol_polling_foldl: "ol_polling w \<Longrightarrow> ol_polling (foldl ol_step w es)"
  by (induction es arbitrary: w) (simp_all add: ol_polling_step)

lemma ol_polling_run: "ol_polling (ol_run (Mount # es))"
proof -
  have "ol_polling (ol_step ol_init Mount)"
    using ol_mount by (simp add: ol_run_def ol_polling_def init_runtime_def)
  then show ?thesis
    by (simp only: ol_run_def foldl_Cons ol_polling_foldl)
qed

text \<open>
  C2 (as amended). The second effect of \<open>OrderList\<close> returns no cleanup, so React holds
  none: after the mount and whatever happens next, an unmount included, the interval
  of 1000 ms that polls \<open>GET /orders\<close> is still active. The component that polls is
  \<open>OrderList\<close>, which is also the component that fetches again on every render;
  \<open>UserProfile\<close> sets no interval and fetches on its mount only.
\<close>

theorem interval_never_cancelled:
  "(0, PollOrders, 1000) \<in> set (timers (rt (ol_run (Mount # es))))
   \<and> cleanups (rt (ol_run (Mount # es))) = []
   \<and> snd (ol_interval_effect w) = None
   \<and> registers_interval env OrderList \<and> refetches_on_render env OrderList
   \<and> \<not> registers_interval env UserProfile \<and> \<not> refetches_on_render env UserProfile"
  using ol_polling_run [of es] components_compared [of env]
  by (simp add: ol_polling_def ol_interval_effect_def)

theorem interval_never_cancelled_witness:
  "(0, PollOrders, 1000) \<in> set (timers (rt (ol_run [Mount, Unmount, Tick 0])))
   \<and> phase (rt (ol_run [Mount, Unmount, Tick 0])) = Unmounted
   \<and> map fst (requests (rt (ol_run [Mount, Unmount, Tick 0])))
       = [(GET, orders_url), (GET, orders_url)]
   \<and> registers_interval sample_env OrderList \<and> refetches_on_render sample_env OrderList"
proof -
  have "ol_run [Mount, Unmount, Tick 0] = ol_step (ol_step (ol_run [Mount]) Unmount) (Tick 0)"
    by (simp add: ol_run_def)
  then show ?thesis
    using interval_never_cancelled [of "[Unmount, Tick 0]" ol_init sample_env]
    by (simp add: ol_mount runtime_defs ol_init_def init_runtime_def destroy_def)
qed

text \<open>The claim as it was stated has the polling component differ from the one that
  fetches on every render. Both are \<open>OrderList\<close>, and \<open>UserProfile\<close> is neither.\<close>

theorem polling_component_also_refetches:
  "registers_interval sample_env OrderList \<and> refetches_on_render sample_env OrderList
   \<and> \<not> registers_interval sample_env UserProfile
   \<and> \<not> refetches_on_render sample_env UserProfile"
  by (simp add: registers_interval_def refetches_on_render_def ol_mount ol_mount_rerender
      up_mount_rerender)

section \<open>C3: the fetch of every render\<close>



section \<open>C4: the error cell is never written\<close>

text \<open>
  C4. No code path calls \<open>setError\<close>: in every state \<open>OrderList\<close> can reach \<open>error\<close> is
  \<open>null\<close>, and in every state \<open>UserProfile\<close> can reach \<open>error\<close> is the empty string, which
  is falsy: \<open>UserProfile\<close> returns its loading view or its profile view, never the view
  of line 97.
\<close>

theorem error_never_set:
  "ol_error (st (ol_run es)) = JNull
   \<and> up_error (st (up_run env us)) = JStr []
   \<and> up_render env (up_run env us) =
       (if up_loading (st (up_run env us)) then Inr loading_view
        else profile_view env (up_run env us))
   \<and> up_render env (up_run env us) \<noteq> Inr (error_view err)"
proof -
  have o: "ol_error (st (ol_run es)) = JNull"
    by (simp add: ol_run_def ol_error_foldl ol_init_def ol_init_state_def)
  have u: "up_error (st (up_run env us)) = JStr []"
    by (simp add: up_run_def up_error_foldl up_init_def up_init_state_def)
  have r: "up_render env (up_run env us) =
       (if up_loading (st (up_run env us)) then Inr loading_view
        else profile_view env (up_run env us))"
    by (simp add: up_render_def u)
  have "up_render env (up_run env us) \<noteq> Inr (error_view err)"
    unfolding r
    by (auto simp: loading_view_def error_view_def profile_view_def bindE_def split: sum.splits)
  with o u r show ?thesis by simp
qed

theorem error_never_set_witness:
  "ol_error (st (ol_run [Mount, Reject 0, Rerender])) = JNull
   \<and> up_error (st (up_run sample_env [Mount, Resolve 0 sample_user])) = JStr []
   \<and> up_render sample_env (up_run sample_env [Mount, Resolve 0 sample_user])
        \<noteq> Inr (error_view (JStr ''failed''))"
  using error_never_set [of "[Mount, Reject 0, Rerender]" sample_env
      "[Mount, Resolve 0 sample_user]" "JStr ''failed''"]
  by blast

section \<open>C5: a rejected request updates nothing\<close>

lemma up_stuck_step: "up_stuck w \<Longrightarrow> up_stuck (up_step env w e)"
proof (cases e)
  case Mount
  assume "up_stuck w" then show ?thesis unfolding Mount by (simp add: up_stuck_def)
next
  case Rerender
  assume "up_stuck w" then show ?thesis unfolding Rerender
    by (auto simp: up_stuck_def up_commit_def up_render_def runtime_defs up_log_effect_def Let_def)
next
  case Unmount
  assume "up_stuck w" then show ?thesis unfolding Unmount
    by (auto simp: up_stuck_def runtime_defs)
next
  case (Tick i)
  assume "up_stuck w" then show ?thesis unfolding Tick by simp
next
  case (Fire h arg)
  assume "up_stuck w" then show ?thesis unfolding Fire
    by (cases h)
       (auto simp: up_stuck_def item_onClick_def up_handleDelete_def add_onClick_def
          runtime_defs Let_def nth_append split: items_ref.splits)
next
  case (Resolve i d)
  assume s: "up_stuck w"
  show ?thesis
  proof (cases "pending w i")
    case False
    with s show ?thesis unfolding Resolve by simp
  next
    case True
    with s obtain items itemId where k: "snd (requests (rt w) ! i) = AfterDelete items itemId"
      by (cases "snd (requests (rt w) ! i)") (auto simp: up_stuck_def pending_def)
    have "up_stuck (after_delete items itemId (settle i w))"
      using s
      by (auto simp: up_stuck_def after_delete_def settled_setItems settle_def
          split: items_ref.splits sum.splits)
    with True k show ?thesis unfolding Resolve by simp
  qed
next
  case (Reject i)
  assume "up_stuck w" then show ?thesis unfolding Reject
    by (auto simp: up_stuck_def settle_def)
qed

lemma up_stuck_foldl: "up_stuck w \<Longrightarrow> up_stuck (foldl (up_step env) w es)"
  by (induction es arbitrary: w) (simp_all add: up_stuck_step)

lemma up_mount_reject: "up_stuck (up_run env [Mount, Reject 0])"
proof -
  have "up_run env [Mount, Reject 0] = up_step env (up_run env [Mount]) (Reject 0)"
    by (simp add: up_run_def)
  then show ?thesis
    by (simp add: up_mount up_stuck_def pending_def settle_def up_init_def init_runtime_def
        up_init_state_def)
qed

text \<open>
  C5. No promise chain has a rejection handler. When a request that is pending is
  rejected, the state of the component is what it was, and the request can never be
  fulfilled later: no handler ever runs for it. In particular the effect that fetches
  at the mount has set \<open>loading\<close> before the request, and \<open>loading\<close> is still true after
  the rejection; in \<open>UserProfile\<close>, where no other request resets it, it then stays true
  whatever happens next. No run of either component records an error message.
\<close>

theorem rejection_updates_nothing:
  assumes "pending w i" and "pending u j"
  shows "st (ol_step w (Reject i)) = st w
     \<and> \<not> pending (foldl ol_step (ol_step w (Reject i)) es) i
     \<and> st (up_step env u (Reject j)) = st u
     \<and> heap (up_step env u (Reject j)) = heap u
     \<and> \<not> pending (foldl (up_step env) (up_step env u (Reject j)) us) j
     \<and> ol_loading (st (ol_run [Mount])) \<and> pending (ol_run [Mount]) 0
     \<and> ol_loading (st (ol_run [Mount, Reject 0]))
     \<and> up_loading (st (up_run env [Mount])) \<and> pending (up_run env [Mount]) 0
     \<and> up_loading (st (up_run env (Mount # Reject 0 # us)))
     \<and> ol_error (st (ol_run es)) = JNull
     \<and> up_error (st (up_run env us)) = JStr []"
proof -
  have a: "st (ol_step w (Reject i)) = st w" by (simp add: settle_def)
  have "i \<in> set (settled (rt (ol_step w (Reject i))))"
    using assms(1) by (simp add: settle_def)
  with settled_ol_foldl [of "ol_step w (Reject i)" es]
  have b: "\<not> pending (foldl ol_step (ol_step w (Reject i)) es) i"
    by (auto simp: pending_def)
  have c: "st (up_step env u (Reject j)) = st u \<and> heap (up_step env u (Reject j)) = heap u"
    by (simp add: settle_def)
  have "j \<in> set (settled (rt (up_step env u (Reject j))))"
    using assms(2) by (simp add: settle_def)
  with settled_up_foldl [of "up_step env u (Reject j)" env us]
  have d: "\<not> pending (foldl (up_step env) (up_step env u (Reject j)) us) j"
    by (auto simp: pending_def)
  have e: "ol_loading (st (ol_run [Mount])) \<and> pending (ol_run [Mount]) 0"
    by (simp add: ol_mount pending_def ol_init_def init_runtime_def)
  have "ol_run [Mount, Reject 0] = ol_step (ol_run [Mount]) (Reject 0)"
    by (simp add: ol_run_def)
  with e have f: "ol_loading (st (ol_run [Mount, Reject 0]))"
    by (simp add: settle_def)
  have g: "up_loading (st (up_run env [Mount])) \<and> pending (up_run env [Mount]) 0"
    by (simp add: up_mount pending_def up_init_def init_runtime_def)
  have "up_run env (Mount # Reject 0 # us) = foldl (up_step env) (up_run env [Mount, Reject 0]) us"
    by (simp add: up_run_def)
  with up_stuck_foldl [OF up_mount_reject, of env env us]
  have h: "up_loading (st (up_run env (Mount # Reject 0 # us)))"
    by (simp add: up_stuck_def)
  have k: "ol_error (st (ol_run es)) = JNull"
    by (simp add: ol_run_def ol_error_foldl ol_init_def ol_init_state_def)
  have l: "up_error (st (up_run env us)) = JStr []"
    by (simp add: up_run_def up_error_foldl up_init_def up_init_state_def)
  from a b c d e f g h k l show ?thesis by simp
qed

theorem rejection_updates_nothing_witness:
  "pending (ol_run [Mount]) 0 \<and> pending (up_run sample_env [Mount]) 0
   \<and> st (ol_step (ol_run [Mount]) (Reject 0)) = st (ol_run [Mount])
   \<and> ol_loading (st (ol_run [Mount, Reject 0]))
   \<and> \<not> pending (foldl ol_step (ol_step (ol_run [Mount]) (Reject 0)) [Resolve 0 (JArr [])]) 0
   \<and> up_loading (st (up_run sample_env [Mount, Reject 0, Rerender, Resolve 0 sample_user]))"
proof -
  have p: "pending (ol_run [Mount]) 0"
    by (simp add: ol_mount pending_def ol_init_def init_runtime_def)
  have q: "pending (up_run sample_env [Mount]) 0"
    by (simp add: up_mount pending_def up_init_def init_runtime_def)
  from rejection_updates_nothing [OF p q, of "[Resolve 0 (JArr [])]" sample_env
      "[Rerender, Resolve 0 sample_user]"] p q
  show ?thesis by simp
qed

section \<open>C6: the endpoints\<close>

lemma endpoint_orders [simp]: "endpoint_of (GET, orders_url) = Some GetOrders"
  by (simp add: orders_url_def path_of_def starts_with_def)

lemma endpoint_order [simp]: "endpoint_of (DELETE, order_url ident) = Some DeleteOrder"
  by (simp add: order_url_def path_of_def starts_with_def)

lemma endpoint_search [simp]: "endpoint_of (GET, search_url q) = Some SearchOrders"
  by (simp add: search_url_def path_of_def starts_with_def)

lemma endpoint_user [simp]: "endpoint_of (GET, user_url ident) = Some GetUser"
  by (simp add: user_url_def path_of_def starts_with_def)

lemma endpoint_item [simp]: "endpoint_of (DELETE, item_url ident) = Some DeleteItem"
  by (simp add: item_url_def path_of_def starts_with_def)

declare endpoint_of.simps [simp del]







section \<open>C7: what reaches the DOM unescaped\<close>

lemma raw_html_order_item: "render_order_item item = Inr v \<Longrightarrow> raw_html v = []"
  by (auto simp: render_order_item_def dest!: bindE_Inr)

lemma raw_html_order:
  assumes "render_order selectedId order = Inr v"
  shows "raw_html v = [js_get order ''memo'']"
proof -
  from assms obtain items item_rows where
    rows: "js_map render_order_item items = Inr item_rows"
    and v: "v = Elem ''div''
         [(''onClick'', Handler (OnClickOrder order)),
          (''style'', Val (JObj
             [(''color'', JStr (getStatusColor (js_get order ''status''))),
              (''padding'', JNum 10),
              (''border'', JStr (if js_loose_eq selectedId (js_get order ''id'')
                                 then ''2px solid blue'' else ''none''))]))]
         [Elem ''p'' [] [Expr (js_get order ''customerName'')],
          Elem ''p'' [] [Text (insert_commas False (js_to_string (js_get order ''price'')) @ txt_won)],
          Elem ''p'' [] [Expr (js_get order ''quantity''), Text txt_pieces],
          Elem ''img'' [(''src'', Val (js_get order ''thumbnail''))] [],
          Elem ''div'' [(''dangerouslySetInnerHTML'', Val (JObj [(''__html'', js_get order ''memo'')]))] [],
          ArrayOf item_rows,
          Elem ''a'' [(''href'', Val (js_get order ''receiptUrl'')), (''target'', Val (JStr ''_blank''))]
            [Text txt_receipt]]"
    by (auto simp: render_order_def get_prop_def formatPrice_def
        dest!: bindE_Inr split: if_splits)
  from rows obtain ys where "mapE render_order_item ys = Inr item_rows"
    by (auto dest: js_map_Inr)
  then have "map raw_html item_rows = map (\<lambda>x. []) ys"
    by (rule mapE_map) (rule raw_html_order_item)
  then have "concat (map raw_html item_rows) = []" by simp
  then show ?thesis unfolding v by simp
qed

lemma raw_html_ol_render:
  assumes "ol_render s = Inr tree"
  shows "\<exists>xs. ol_orders s = JArr xs \<and> raw_html tree = map (\<lambda>order. js_get order ''memo'') xs"
proof -
  from assms obtain rows total_text where
    rows: "js_map (render_order (ol_selectedId s)) (ol_orders s) = Inr rows"
    and tree: "tree = Elem ''div'' []
         [if ol_loading s then Elem ''p'' [] [Text txt_loading] else Expr (JBool False),
          ArrayOf rows,
          Elem ''p'' [] [Text txt_total, Text total_text],
          Elem ''input''
            [(''type'', Val (JStr ''text'')),
             (''placeholder'', Val (JStr txt_search)),
             (''onChange'', Handler OnChangeSearch)] []]"
    by (auto simp: ol_render_def dest!: bindE_Inr)
  from rows obtain xs where xs: "ol_orders s = JArr xs"
    and m: "mapE (render_order (ol_selectedId s)) xs = Inr rows"
    by (auto dest: js_map_Inr)
  from m have "map raw_html rows = map (\<lambda>order. [js_get order ''memo'']) xs"
    by (rule mapE_map) (rule raw_html_order)
  then have "concat (map raw_html rows) = map (\<lambda>order. js_get order ''memo'') xs"
    by (simp add: concat_map_singleton)
  with xs show ?thesis unfolding tree by simp
qed

lemma raw_html_item: "render_item p = Inr v \<Longrightarrow> raw_html v = []"
  by (cases p) (auto simp: render_item_def dest!: bindE_Inr)

lemma raw_html_profile:
  assumes "render_profile env w = Inr v"
  shows "raw_html v = [js_get (up_userData (st w)) ''bio'']"
proof -
  from assms obtain n item_rows where
    rows: "renderItems w (up_items (st w)) = Inr item_rows"
    and v: "v = Fragment
          [Elem ''p'' [] [Text txt_email, Expr (js_get (up_userData (st w)) ''email'')],
           Elem ''p'' []
             [Text txt_age, Expr (calculateAge env (js_get (up_userData (st w)) ''birthDate'')),
              Text txt_years],
           Elem ''p'' []
             [Text txt_status, Text '' '', Text (status_text (js_get (up_userData (st w)) ''status''))],
           Elem ''p'' [] [Text txt_clicks, Expr (JNum (up_count (st w)))],
           Elem ''div''
             [(''dangerouslySetInnerHTML'',
               Val (JObj [(''__html'', js_get (up_userData (st w)) ''bio'')]))] [],
           Elem ''h2'' [] [Text txt_item_list, Expr n, Text (txt_pieces @ '')'')],
           ArrayOf item_rows,
           Elem ''button'' [(''onClick'', Handler OnClickAdd)] [Text txt_add_item]]"
    by (auto simp: render_profile_def Let_def dest!: bindE_Inr)
  from rows obtain ps where "mapE render_item ps = Inr item_rows"
    by (auto simp: renderItems_def split: items_ref.splits)
  then have "map raw_html item_rows = map (\<lambda>x. []) ps"
    by (rule mapE_map) (rule raw_html_item)
  then have "concat (map raw_html item_rows) = []" by simp
  then show ?thesis unfolding v by simp
qed

lemma stored_as_received:
  assumes "phase (rt w) = Mounted" and "k \<noteq> NoThen" and "phase (rt u) = Mounted"
  shows "ol_orders (st (ol_run_then k d w)) = d"
    and "up_userData (st (user_fetch_then data u)) = data"
proof -
  show "ol_orders (st (ol_run_then k d w)) = d"
    using assms(1,2)
    by (cases k) (auto simp: initial_fetch_then_def set_state_def Let_def split: sum.splits)
  have "\<And>v x. up_userData (st (setItems_value v x)) = up_userData (st x)"
    by (auto simp: setItems_value_def alloc_def set_state_def split: jsval.splits)
  then show "up_userData (st (user_fetch_then data u)) = data"
    using assms(3)
    by (auto simp: user_fetch_then_def set_state_def Let_def split: sum.splits)
qed

text \<open>
  C7. The handlers of the fetches store the parsed response as it came: \<open>orders\<close> and
  \<open>userData\<close> are unvalidated network data. Whenever \<open>OrderList\<close> renders, the values
  its tree hands to \<open>dangerouslySetInnerHTML\<close> are exactly the \<open>memo\<close> of every order, in
  order and as they are; whenever \<open>UserProfile\<close> renders its profile (it is not loading
  and \<open>userData\<close> is truthy), the one such value is \<open>userData.bio\<close> as it is. Nothing is
  checked, cleaned or escaped on the way: every string goes through verbatim.
\<close>

theorem raw_html_is_unvalidated_data:
  assumes "ol_render s = Inr tree" and "up_render env w = Inr tree'"
    and "phase (rt o1) = Mounted" and "k \<noteq> NoThen" and "phase (rt u1) = Mounted"
  shows "(\<exists>xs. ol_orders s = JArr xs \<and> raw_html tree = map (\<lambda>order. js_get order ''memo'') xs)
     \<and> raw_html tree' =
         (if up_loading (st w) \<or> truthy (up_error (st w)) \<or> \<not> truthy (up_userData (st w))
          then [] else [js_get (up_userData (st w)) ''bio''])
     \<and> ol_orders (st (ol_run_then k d o1)) = d
     \<and> up_userData (st (user_fetch_then data u1)) = data"
proof -
  have "raw_html tree' =
         (if up_loading (st w) \<or> truthy (up_error (st w)) \<or> \<not> truthy (up_userData (st w))
          then [] else [js_get (up_userData (st w)) ''bio''])"
    using assms(2)
    by (auto simp: up_render_def loading_view_def error_view_def profile_view_def
        raw_html_profile dest!: bindE_Inr split: if_splits)
  with raw_html_ol_render [OF assms(1)] stored_as_received [OF assms(3,4,5)]
  show ?thesis by simp
qed

theorem raw_html_is_unvalidated_data_witness:
  "raw_html (projr (ol_render (st (ol_run [Mount, Resolve 0 (JArr [sample_order])]))))
     = [JStr ''<img src=x onerror=alert(1)>'']
   \<and> raw_html (projr (up_render sample_env (up_run sample_env [Mount, Resolve 0 sample_user])))
     = [JStr ''<script>alert(1)</script>'']"
proof -
  let ?o = "ol_run [Mount]"
  let ?s = "st (ol_run [Mount, Resolve 0 (JArr [sample_order])])"
  let ?u = "up_run sample_env [Mount]"
  let ?w = "up_run sample_env [Mount, Resolve 0 sample_user]"
  have "isl (ol_render ?s) = False" by code_simp
  then have a: "ol_render ?s = Inr (projr (ol_render ?s))"
    by (cases "ol_render ?s") simp_all
  have "isl (up_render sample_env ?w) = False" by code_simp
  then have b: "up_render sample_env ?w = Inr (projr (up_render sample_env ?w))"
    by (cases "up_render sample_env ?w") simp_all
  have m: "phase (rt ?o) = Mounted" and n: "phase (rt ?u) = Mounted"
    by (simp_all add: ol_mount up_mount ol_init_def up_init_def init_runtime_def)
  have k: "InitialFetchThen \<noteq> NoThen" by simp
  have so: "?s = st (ol_run_then InitialFetchThen (JArr [sample_order]) (settle 0 ?o))"
    and sw: "st ?w = st (user_fetch_then sample_user (settle 0 ?u))"
    by code_simp+
  have c: "up_loading (st ?w) = False \<and> up_error (st ?w) = JStr []" by code_simp
  have ms: "phase (rt (settle 0 ?o)) = Mounted" "phase (rt (settle 0 ?u)) = Mounted"
    using m n by (simp_all add: settle_def)
  from raw_html_is_unvalidated_data [OF a b ms(1) k ms(2), of "JArr [sample_order]" sample_user]
  show ?thesis unfolding so [symmetric] sw [symmetric] using c
    by (auto simp: sample_order_def sample_user_def)
qed

section \<open>C8: the total of the orders\<close>


lemma js_arith_num [simp]:
  "js_mul (JNum p) (JNum q) = JNum (p * q)"
  "js_add (JNum a) (JNum b) = JNum (a + b)"
  by (simp_all add: js_mul_def js_add_def to_number_def is_str_def)




section \<open>C9: the full name\<close>

text \<open>
  C9 (as amended). \<open>getFullName\<close> is a total case analysis on \<open>userData\<close>: it returns
  \<open>Loading...\<close> when \<open>userData\<close> is falsy (\<open>null\<close>, and also \<open>undefined\<close>, 0, \<open>NaN\<close>, the
  empty string and \<open>false\<close>); otherwise \<open>Unknown\<close> when \<open>userData.firstName\<close> is falsy,
  \<open>userData.firstName\<close> alone when it is truthy and \<open>userData.lastName\<close> is falsy, and
  \<open>firstName + " " + lastName\<close> when both are truthy, which for two strings is the
  two joined by a space.
\<close>

theorem getFullName_cases:
  "getFullName userData =
     (if \<not> truthy userData then JStr ''Loading...''
      else if \<not> truthy (js_get userData ''firstName'') then JStr ''Unknown''
      else if \<not> truthy (js_get userData ''lastName'') then js_get userData ''firstName''
      else js_add (js_add (js_get userData ''firstName'') (JStr '' ''))
             (js_get userData ''lastName''))
   \<and> getFullName JNull = JStr ''Loading...''
   \<and> js_add (js_add (JStr f) (JStr '' '')) (JStr l) = JStr (f @ '' '' @ l)"
  by (simp add: getFullName_def js_add_def is_str_def)

theorem getFullName_cases_witness:
  "getFullName JNull = JStr ''Loading...''
   \<and> getFullName (JBool False) = JStr ''Loading...''
   \<and> getFullName (JObj [(''lastName'', JStr ''Lee'')]) = JStr ''Unknown''
   \<and> getFullName (JObj [(''firstName'', JStr ''Ann''), (''lastName'', JStr [])]) = JStr ''Ann''
   \<and> getFullName sample_user = JStr ''Ann Lee''"
  using getFullName_cases [of JNull "''Ann''" "''Lee''"]
    getFullName_cases [of "JBool False" "''Ann''" "''Lee''"]
    getFullName_cases [of "JObj [(''lastName'', JStr ''Lee'')]" "''Ann''" "''Lee''"]
    getFullName_cases [of "JObj [(''firstName'', JStr ''Ann''), (''lastName'', JStr [])]" "''Ann''" "''Lee''"]
    getFullName_cases [of sample_user "''Ann''" "''Lee''"]
  by (simp add: sample_user_def)

text \<open>The claim as it was stated returns \<open>Loading...\<close> for \<open>null\<close> and decides every other
  \<open>userData\<close> by its names. The response \<open>0\<close> is not \<open>null\<close> and its \<open>firstName\<close> is
  \<open>undefined\<close>, which is falsy, yet the function returns \<open>Loading...\<close> and not
  \<open>Unknown\<close>.\<close>

theorem getFullName_falsy_not_null:
  "JNum 0 \<noteq> JNull
   \<and> get_prop (JNum 0) ''firstName'' = Inr JUndefined
   \<and> \<not> truthy JUndefined
   \<and> getFullName (JNum 0) = JStr ''Loading...''
   \<and> getFullName (JNum 0) \<noteq> JStr ''Unknown''"
  by (simp add: getFullName_def get_prop_def nullish_def)

section \<open>C10: what handleDelete changes\<close>




lemma deref_frame [simp]:
  "deref (w\<lparr>rt := r\<rparr>) a = deref w a" "deref (w\<lparr>st := s\<rparr>) a = deref w a"
  by (simp_all add: deref_def)



















end
